theory Spec2Isabelle
  imports Main
begin

section \<open>Data model\<close>

text \<open>
  The embedding follows the Postgres-backed variant of the Slack task application
  (the handlers \<open>task_modal\<close>, \<open>complete_task\<close>, \<open>confirm_broadcast_done\<close>,
  \<open>cancel_task\<close>, \<open>status_select\<close>, \<open>edit_task_modal\<close> and the \<open>db...\<close> helpers
  they call).  Identifiers (team, task, user, channel, message timestamp) are JavaScript
  strings; the empty string is falsy, as in the source.  A nullable column is an
  \<open>option\<close>.  The database clock \<open>now()\<close> is a natural number supplied with each request.
\<close>

text \<open>
  The column \<open>status\<close> is text.  The code writes five values only: \<open>in_progress\<close> at
  creation, \<open>waiting\<close>, \<open>done\<close> and \<open>cancelled\<close> from the handlers, and the value
  of the option chosen in the status select, which offers \<open>open\<close>, \<open>in_progress\<close>,
  \<open>waiting\<close> and \<open>done\<close>.
\<close>

datatype status = Open | In_progress | Waiting | Done | Cancelled

datatype task_type = Personal | Broadcast

text \<open>
  A row of table \<open>tasks\<close>.  The column \<open>id\<close> is called \<open>task_id\<close> here.  The columns that
  only feed the rendering (title, permalink, requester department, group handle,
  assignee label) are left out.
\<close>

record task =
  task_id :: string
  team_id :: string
  channel_id :: "string option"
  message_ts :: "string option"
  description :: string
  requester_user_id :: string
  created_by_user_id :: string
  assignee_id :: "string option"
  assignee_dept :: "string option"
  status :: status
  due_date :: "string option"
  task_type :: task_type
  total_count :: "int option"
  completed_count :: "int option"
  notified_at :: "nat option"
  updated_at :: nat
  completed_at :: "nat option"
  cancelled_at :: "nat option"
  cancelled_by_user_id :: "string option"

text \<open>A row of \<open>task_targets\<close> or of \<open>task_completions\<close>: columns (task_id, team_id, user_id).\<close>

record member_row =
  row_task_id :: string
  row_team_id :: string
  row_user_id :: string

text \<open>A row of \<open>thread_cards\<close>.\<close>

record thread_card =
  card_id :: string
  card_team_id :: string
  card_channel_id :: string
  parent_ts :: string
  card_ts :: "string option"
  card_updated_at :: nat

record store =
  tasks :: "task list"
  task_targets :: "member_row list"
  task_completions :: "member_row list"
  thread_cards :: "thread_card list"

text \<open>JavaScript truthiness of a possibly missing string, and the operator \<open>a || b\<close>.\<close>

definition truthy :: "string option \<Rightarrow> bool" where
  "truthy v = (case v of None \<Rightarrow> False | Some s \<Rightarrow> s \<noteq> [])"

definition js_or :: "string option \<Rightarrow> string option \<Rightarrow> string option" where
  "js_or a b = (if truthy a then a else b)"

text \<open>SQL \<open>COALESCE(a, b)\<close>.\<close>

definition coalesce :: "'a option \<Rightarrow> 'a option \<Rightarrow> 'a option" where
  "coalesce a b = (case a of Some x \<Rightarrow> Some x | None \<Rightarrow> b)"

section \<open>Task store\<close>

definition is_task :: "string \<Rightarrow> string \<Rightarrow> task \<Rightarrow> bool" where
  "is_task teamId taskId t = (team_id t = teamId \<and> task_id t = taskId)"

text \<open>\<open>SELECT * FROM tasks WHERE team_id=$1 AND id=$2 LIMIT 1\<close>, then \<open>rows[0] || null\<close>.\<close>

definition dbGetTaskById :: "store \<Rightarrow> string \<Rightarrow> string \<Rightarrow> task option" where
  "dbGetTaskById s teamId taskId = find (is_task teamId taskId) (tasks s)"

text \<open>
  \<open>UPDATE tasks SET ... WHERE team_id=$1 AND id=$2 RETURNING *\<close>: every matching row is
  rewritten, and the caller receives \<open>rows[0] || null\<close>.
\<close>

definition update_tasks ::
  "(task \<Rightarrow> task) \<Rightarrow> string \<Rightarrow> string \<Rightarrow> store \<Rightarrow> store \<times> task option" where
  "update_tasks f teamId taskId s =
     (let rows = map (\<lambda>t. if is_task teamId taskId t then f t else t) (tasks s)
      in (s\<lparr>tasks := rows\<rparr>, find (is_task teamId taskId) rows))"

definition dbUpdateStatus ::
  "nat \<Rightarrow> store \<Rightarrow> string \<Rightarrow> string \<Rightarrow> status \<Rightarrow> store \<times> task option" where
  "dbUpdateStatus clock s teamId taskId st =
     update_tasks
       (\<lambda>t. t\<lparr>status := st,
              completed_at := (if st = Done then Some clock else completed_at t),
              updated_at := clock\<rparr>)
       teamId taskId s"

text \<open>
  A field of the \<open>patch\<close> object handed to \<open>dbUpdateTaskContent\<close>: left out
  (\<open>undefined\<close>), \<open>null\<close>, or a value.  \<open>nullish\<close> is \<open>patch?.field ?? null\<close>.
\<close>

datatype 'a js_field = Omitted | Null | Val 'a

fun nullish :: "'a js_field \<Rightarrow> 'a option" where
  "nullish Omitted = None"
| "nullish Null = None"
| "nullish (Val v) = Some v"

record patch =
  patch_assignee_id :: "string js_field"
  patch_assignee_dept :: "string js_field"
  patch_due_date :: "string js_field"
  patch_description :: "string js_field"

definition dbUpdateTaskContent ::
  "nat \<Rightarrow> store \<Rightarrow> string \<Rightarrow> string \<Rightarrow> patch \<Rightarrow> store \<times> task option" where
  "dbUpdateTaskContent clock s teamId taskId p =
     update_tasks
       (\<lambda>t. t\<lparr>assignee_id := coalesce (nullish (patch_assignee_id p)) (assignee_id t),
              assignee_dept := coalesce (nullish (patch_assignee_dept p)) (assignee_dept t),
              due_date := nullish (patch_due_date p),
              description :=
                (case nullish (patch_description p) of Some d \<Rightarrow> d | None \<Rightarrow> description t),
              updated_at := clock\<rparr>)
       teamId taskId s"

definition dbCancelTask ::
  "nat \<Rightarrow> store \<Rightarrow> string \<Rightarrow> string \<Rightarrow> string \<Rightarrow> store \<times> task option" where
  "dbCancelTask clock s teamId taskId actorUserId =
     update_tasks
       (\<lambda>t. t\<lparr>status := Cancelled,
              cancelled_at := Some clock,
              cancelled_by_user_id := Some actorUserId,
              updated_at := clock\<rparr>)
       teamId taskId s"

definition dbUpdateBroadcastCounts ::
  "nat \<Rightarrow> store \<Rightarrow> string \<Rightarrow> string \<Rightarrow> int \<Rightarrow> int option \<Rightarrow> store \<times> task option" where
  "dbUpdateBroadcastCounts clock s teamId taskId completedCount totalCount =
     update_tasks
       (\<lambda>t. t\<lparr>completed_count := Some completedCount,
              total_count := coalesce (total_count t) totalCount,
              updated_at := clock\<rparr>)
       teamId taskId s"

text \<open>
  \<open>UPDATE tasks SET notified_at=now() WHERE team_id=$1 AND id=$2 AND notified_at IS NULL\<close>,
  the conditional update issued by \<open>complete_task\<close>.
\<close>

definition dbSetNotifiedIfNull :: "nat \<Rightarrow> store \<Rightarrow> string \<Rightarrow> string \<Rightarrow> store" where
  "dbSetNotifiedIfNull clock s teamId taskId =
     s\<lparr>tasks := map (\<lambda>t. if is_task teamId taskId t \<and> notified_at t = None
                           then t\<lparr>notified_at := Some clock\<rparr> else t) (tasks s)\<rparr>"

subsection \<open>Targets and completions\<close>

definition same_member :: "member_row \<Rightarrow> member_row \<Rightarrow> bool" where
  "same_member r x = (row_task_id x = row_task_id r \<and> row_user_id x = row_user_id r)"

text \<open>\<open>INSERT ... ON CONFLICT (task_id, user_id) DO NOTHING\<close> of one row.\<close>

definition insert_member :: "member_row \<Rightarrow> member_row list \<Rightarrow> member_row list" where
  "insert_member r rows =
     (case find (same_member r) rows of Some x \<Rightarrow> rows | None \<Rightarrow> rows @ [r])"

definition is_member :: "string \<Rightarrow> string \<Rightarrow> member_row \<Rightarrow> bool" where
  "is_member teamId taskId r = (row_team_id r = teamId \<and> row_task_id r = taskId)"

definition dbInsertTaskTargets :: "store \<Rightarrow> string \<Rightarrow> string \<Rightarrow> string list \<Rightarrow> store" where
  "dbInsertTaskTargets s teamId taskId userIds =
     (if userIds = [] then s
      else s\<lparr>task_targets :=
             foldl (\<lambda>rows uid.
                      insert_member
                        \<lparr>row_task_id = taskId, row_team_id = teamId, row_user_id = uid\<rparr> rows)
                   (task_targets s) userIds\<rparr>)"

text \<open>
  The user id handed to the two lookups comes from \<open>getUserIdFromBody\<close> and may be
  \<open>null\<close>; \<open>user_id = NULL\<close> selects no row.
\<close>

definition dbIsUserTarget :: "store \<Rightarrow> string \<Rightarrow> string \<Rightarrow> string option \<Rightarrow> bool" where
  "dbIsUserTarget s teamId taskId userId =
     (case userId of
        None \<Rightarrow> False
      | Some u \<Rightarrow>
          find (\<lambda>r. is_member teamId taskId r \<and> row_user_id r = u) (task_targets s) \<noteq> None)"

definition dbHasUserCompleted :: "store \<Rightarrow> string \<Rightarrow> string \<Rightarrow> string option \<Rightarrow> bool" where
  "dbHasUserCompleted s teamId taskId userId =
     (case userId of
        None \<Rightarrow> False
      | Some u \<Rightarrow>
          find (\<lambda>r. is_member teamId taskId r \<and> row_user_id r = u) (task_completions s) \<noteq> None)"

definition dbUpsertCompletion :: "store \<Rightarrow> string \<Rightarrow> string \<Rightarrow> string \<Rightarrow> store" where
  "dbUpsertCompletion s teamId taskId userId =
     s\<lparr>task_completions :=
         insert_member \<lparr>row_task_id = taskId, row_team_id = teamId, row_user_id = userId\<rparr>
           (task_completions s)\<rparr>"

definition dbCountTargets :: "store \<Rightarrow> string \<Rightarrow> string \<Rightarrow> int" where
  "dbCountTargets s teamId taskId = int (length (filter (is_member teamId taskId) (task_targets s)))"

definition dbCountCompletions :: "store \<Rightarrow> string \<Rightarrow> string \<Rightarrow> int" where
  "dbCountCompletions s teamId taskId =
     int (length (filter (is_member teamId taskId) (task_completions s)))"

definition dbListTargetUserIds :: "store \<Rightarrow> string \<Rightarrow> string \<Rightarrow> string list" where
  "dbListTargetUserIds s teamId taskId =
     filter (\<lambda>u. u \<noteq> []) (map row_user_id (filter (is_member teamId taskId) (task_targets s)))"

subsection \<open>Thread cards\<close>

definition is_card :: "string \<Rightarrow> string \<Rightarrow> string \<Rightarrow> thread_card \<Rightarrow> bool" where
  "is_card teamId channelId parentTs c =
     (card_team_id c = teamId \<and> card_channel_id c = channelId \<and> parent_ts c = parentTs)"

definition dbGetThreadCard :: "store \<Rightarrow> string \<Rightarrow> string \<Rightarrow> string \<Rightarrow> thread_card option" where
  "dbGetThreadCard s teamId channelId parentTs =
     find (is_card teamId channelId parentTs) (thread_cards s)"

text \<open>
  What a request brings from outside the store: the database clock, the value of
  \<open>randomUUID()\<close>, and the \<open>ts\<close> field of the reply of \<open>chat.postMessage\<close> when the
  request posts a card (\<open>None\<close> when the reply carries none).
\<close>

record env =
  clock :: nat
  fresh_uuid :: string
  post_reply :: "string option"

text \<open>
  The two directory lookups of the creation and edit handlers:
  \<open>usergroups.users.list\<close> (\<open>None\<close> when the call throws, which
  \<open>expandTargetsFromGroups\<close> catches) and \<open>resolveDeptForUser\<close>.
\<close>

record directory =
  usergroup_users :: "string \<Rightarrow> string list option"
  resolve_dept :: "string \<Rightarrow> string option"

definition dbUpsertThreadCard ::
  "env \<Rightarrow> store \<Rightarrow> string \<Rightarrow> string \<Rightarrow> string \<Rightarrow> string \<Rightarrow> store" where
  "dbUpsertThreadCard e s teamId channelId parentTs cardTs =
     (case dbGetThreadCard s teamId channelId parentTs of
        Some existing \<Rightarrow>
          s\<lparr>thread_cards :=
              map (\<lambda>c. if is_card teamId channelId parentTs c
                        then c\<lparr>card_ts := Some cardTs, card_updated_at := clock e\<rparr> else c)
                  (thread_cards s)\<rparr>
      | None \<Rightarrow>
          s\<lparr>thread_cards :=
              thread_cards s @
                [\<lparr>card_id = fresh_uuid e, card_team_id = teamId, card_channel_id = channelId,
                  parent_ts = parentTs, card_ts = Some cardTs, card_updated_at = clock e\<rparr>]\<rparr>)"

section \<open>Effects on Slack\<close>

text \<open>
  The calls a handler makes to Slack are returned as a list of events, in order.  The
  texts of the ephemeral messages are named: "not a target of this task", "already done
  or withdrawn", "only the requester can withdraw", "the status of a group task advances
  by itself", "only the requester or the assignee can change the status".  The events
  are: an ephemeral message (channel, user, text), the "everyone has completed" direct
  message to the requester (team, task, requester), the short direct message with a
  detail button (user, task, header), the status direct message of \<open>status_select\<close>
  (user, new status), a card posted (channel, thread) or edited (channel, message), the
  change log posted by the edit handler (channel, thread), and the two answers to a view
  submission.  Slack calls are taken to succeed; the rendering of views and of the Home
  tab is not modelled.
\<close>

datatype notice =
    Not_a_target
  | Already_closed
  | Cancel_requester_only
  | Broadcast_status_is_automatic
  | Status_requester_or_assignee_only

datatype dm_header = Task_arrived | Task_completed

datatype event =
    Ephemeral string "string option" notice
  | Requester_confirm_dm string string string
  | Simple_dm string string dm_header
  | Post_dm string status
  | Card_post string string
  | Card_update string string
  | Change_log string string
  | Ack_errors
  | Ack_ok

subsection \<open>Thread card upsert\<close>

text \<open>
  \<open>upsertThreadCard(client, {teamId, channelId, parentTs, threadTs, blocks})\<close>: edit the
  recorded card when a row with a card timestamp exists, otherwise post into the
  thread and record the timestamp of the reply.  The result is the store, the Slack
  calls made, and the returned card timestamp.
\<close>

definition post_card ::
  "env \<Rightarrow> store \<Rightarrow> string \<Rightarrow> string \<Rightarrow> string \<Rightarrow> string option
     \<Rightarrow> store \<times> event list \<times> string option" where
  "post_card e s teamId channelId parentTs threadTs =
     (let postThreadTs = (case js_or threadTs (Some parentTs) of Some x \<Rightarrow> x | None \<Rightarrow> parentTs);
          cardTs = post_reply e
      in (case cardTs of
            Some c \<Rightarrow>
              (if c \<noteq> [] then dbUpsertThreadCard e s teamId channelId parentTs c else s,
               [Card_post channelId postThreadTs], cardTs)
          | None \<Rightarrow> (s, [Card_post channelId postThreadTs], cardTs)))"

definition upsertThreadCard ::
  "env \<Rightarrow> store \<Rightarrow> string \<Rightarrow> string \<Rightarrow> string \<Rightarrow> string option
     \<Rightarrow> store \<times> event list \<times> string option" where
  "upsertThreadCard e s teamId channelId parentTs threadTs =
     (case dbGetThreadCard s teamId channelId parentTs of
        Some existing \<Rightarrow>
          (case card_ts existing of
             Some c \<Rightarrow>
               (if c \<noteq> [] then (s, [Card_update channelId c], Some c)
                else post_card e s teamId channelId parentTs threadTs)
           | None \<Rightarrow> post_card e s teamId channelId parentTs threadTs)
      | None \<Rightarrow> post_card e s teamId channelId parentTs threadTs)"

text \<open>The refresh protocol run once per request of a list, on the same key.\<close>

fun refresh_card ::
  "env list \<Rightarrow> store \<Rightarrow> string \<Rightarrow> string \<Rightarrow> string \<Rightarrow> store \<times> event list" where
  "refresh_card [] s teamId channelId parentTs = (s, [])"
| "refresh_card (e # es) s teamId channelId parentTs =
     (case upsertThreadCard e s teamId channelId parentTs None of
        (s1, evs, r) \<Rightarrow>
          (case refresh_card es s1 teamId channelId parentTs of
             (s2, evs2) \<Rightarrow> (s2, evs @ evs2)))"

definition card_rows :: "store \<Rightarrow> string \<Rightarrow> string \<Rightarrow> string \<Rightarrow> thread_card list" where
  "card_rows s teamId channelId parentTs =
     filter (is_card teamId channelId parentTs) (thread_cards s)"

text \<open>The row \<open>dbUpsertThreadCard\<close> inserts for a key that has none.\<close>

definition new_card :: "env \<Rightarrow> string \<Rightarrow> string \<Rightarrow> string \<Rightarrow> string \<Rightarrow> thread_card" where
  "new_card e teamId channelId parentTs c =
     \<lparr>card_id = fresh_uuid e, card_team_id = teamId, card_channel_id = channelId,
       parent_ts = parentTs, card_ts = Some c, card_updated_at = clock e\<rparr>"

definition empty_store :: store where
  "empty_store = \<lparr>tasks = [], task_targets = [], task_completions = [], thread_cards = []\<rparr>"

section \<open>Handlers\<close>

text \<open>
  What a handler reads from the Slack payload: the acting user (\<open>body.user.id\<close>), the
  team of the payload (\<open>body.team?.id || body.team_id\<close>), the callback id of the view
  the action came from, and the team and task ids carried by the button value or by the
  private metadata of the view.
\<close>

datatype view_kind = No_view | List_detail_modal | Detail_modal | Other_view

record request =
  req_user :: string
  req_team :: "string option"
  req_view :: view_kind
  val_team :: "string option"
  val_task :: "string option"

text \<open>
  \<open>getUserIdFromBody(body)\<close> is \<open>body?.user?.id || body?.user_id || body?.user?.user_id
  || null\<close>; the payload of a button press or of a view submission carries the user in
  \<open>body.user.id\<close> only, so the result is that id, or \<open>null\<close> when it is empty.
\<close>

definition getUserIdFromBody :: "request \<Rightarrow> string option" where
  "getUserIdFromBody r = (if req_user r \<noteq> [] then Some (req_user r) else None)"

text \<open>The expression \<open>task.channel_id || body.user.id\<close>.\<close>

definition channel_or_user :: "task \<Rightarrow> request \<Rightarrow> string" where
  "channel_or_user t r =
     (case channel_id t of Some c \<Rightarrow> (if c \<noteq> [] then c else req_user r) | None \<Rightarrow> req_user r)"

definition startsWithD :: "string \<Rightarrow> bool" where
  "startsWithD c = (case c of [] \<Rightarrow> False | x # xs \<Rightarrow> x = CHR ''D'')"

text \<open>\<open>Array.from(new Set(xs.filter(Boolean)))\<close>: falsy entries dropped, first occurrences kept.\<close>

definition set_add :: "string list \<Rightarrow> string \<Rightarrow> string list" where
  "set_add acc u = (if u \<in> set acc then acc else acc @ [u])"

definition uniq :: "string list \<Rightarrow> string list" where
  "uniq xs = foldl set_add [] (filter (\<lambda>u. u \<noteq> []) xs)"

definition opt_list :: "string option \<Rightarrow> string list" where
  "opt_list v = (case v of None \<Rightarrow> [] | Some x \<Rightarrow> [x])"

definition postRequesterConfirmDM :: "string \<Rightarrow> string \<Rightarrow> string \<Rightarrow> event list" where
  "postRequesterConfirmDM teamId taskId requesterUserId =
     (if requesterUserId = [] then [] else [Requester_confirm_dm teamId taskId requesterUserId])"

definition notifyTaskSimpleDM :: "string \<Rightarrow> task \<Rightarrow> dm_header \<Rightarrow> event list" where
  "notifyTaskSimpleDM userId t header =
     (if userId = [] \<or> team_id t = [] \<or> task_id t = [] then []
      else [Simple_dm userId (task_id t) header])"

definition postDM :: "string \<Rightarrow> status \<Rightarrow> event list" where
  "postDM userId st = (if userId = [] then [] else [Post_dm userId st])"

text \<open>
  The block every handler ends a mutation with: when the task row has a channel and a
  message timestamp and the channel is not a direct message, refresh its thread card.
\<close>

definition refresh_task_card :: "env \<Rightarrow> store \<Rightarrow> string \<Rightarrow> task \<Rightarrow> store \<times> event list" where
  "refresh_task_card e s teamId t =
     (case channel_id t of
        None \<Rightarrow> (s, [])
      | Some ch \<Rightarrow>
          (case message_ts t of
             None \<Rightarrow> (s, [])
           | Some ts \<Rightarrow>
               if ch \<noteq> [] \<and> ts \<noteq> [] \<and> \<not> startsWithD ch
               then (case upsertThreadCard e s teamId ch ts None of (s1, evs, r) \<Rightarrow> (s1, evs))
               else (s, [])))"

subsection \<open>complete_task\<close>

text \<open>
  The step of \<open>complete_task\<close> after the completion row is written: compare the
  re-counted completions with the total and, when all targets have completed, move
  the task to waiting and notify the requester once.  \<open>total_of\<close> is the source's
  \<open>total = task.total_count || (await dbCountTargets(teamId, taskId))\<close> and
  \<open>all_complete\<close> its test \<open>doneCount >= total && total > 0\<close>.
\<close>

definition total_of :: "store \<Rightarrow> string \<Rightarrow> string \<Rightarrow> task \<Rightarrow> int" where
  "total_of s1 teamId taskId t =
     (case total_count t of
        Some n \<Rightarrow> (if n \<noteq> 0 then n else dbCountTargets s1 teamId taskId)
      | None \<Rightarrow> dbCountTargets s1 teamId taskId)"

definition all_complete :: "store \<Rightarrow> string \<Rightarrow> string \<Rightarrow> task \<Rightarrow> bool" where
  "all_complete s1 teamId taskId t =
     (dbCountCompletions s1 teamId taskId \<ge> total_of s1 teamId taskId t
        \<and> total_of s1 teamId taskId t > 0)"

definition all_done_step ::
  "env \<Rightarrow> store \<Rightarrow> string \<Rightarrow> string \<Rightarrow> task \<Rightarrow> store \<times> event list" where
  "all_done_step e s1 teamId taskId t =
     (if all_complete s1 teamId taskId t then
        (case dbGetTaskById s1 teamId taskId of
           None \<Rightarrow> (s1, [])
         | Some fresh \<Rightarrow>
             (let s2 = (if status fresh \<noteq> Waiting \<and> status fresh \<noteq> Done
                           \<and> status fresh \<noteq> Cancelled
                        then fst (dbUpdateStatus (clock e) s1 teamId taskId Waiting)
                        else s1)
              in if notified_at fresh = None
                 then (dbSetNotifiedIfNull (clock e) s2 teamId taskId,
                       postRequesterConfirmDM teamId taskId (requester_user_id fresh))
                 else (s2, [])))
      else (s1, []))"

text \<open>
  The broadcast branch.  The card is refreshed when the row read at the start has a
  channel and a message timestamp; the row read again after the update carries the
  same two columns, and \<open>refresh_task_card\<close> tests them on that row.
\<close>

definition complete_broadcast ::
  "env \<Rightarrow> request \<Rightarrow> store \<Rightarrow> string \<Rightarrow> string \<Rightarrow> task \<Rightarrow> store \<times> event list" where
  "complete_broadcast e r s teamId taskId t =
     (let userId = getUserIdFromBody r
      in if \<not> dbIsUserTarget s teamId taskId userId
         then (s, [Ephemeral (channel_or_user t r) userId Not_a_target])
         else
           (case userId of
              None \<Rightarrow> (s, [])
            | Some u \<Rightarrow>
                (let s1 = dbUpsertCompletion s teamId taskId u
                 in case all_done_step e s1 teamId taskId t of
                      (s2, evs) \<Rightarrow>
                        if truthy (channel_id t) \<and> truthy (message_ts t)
                        then (case dbGetTaskById s2 teamId taskId of
                                None \<Rightarrow> (s2, evs)
                              | Some refreshed \<Rightarrow>
                                  (case refresh_task_card e s2 teamId refreshed of
                                     (s3, evs3) \<Rightarrow> (s3, evs @ evs3)))
                        else (s2, evs))))"

definition complete_personal ::
  "env \<Rightarrow> request \<Rightarrow> store \<Rightarrow> string \<Rightarrow> string \<Rightarrow> store \<times> event list" where
  "complete_personal e r s teamId taskId =
     (case dbUpdateStatus (clock e) s teamId taskId Done of
        (s1, None) \<Rightarrow> (s1, [])
      | (s1, Some updated) \<Rightarrow>
          (let dms = concat (map (\<lambda>uid. notifyTaskSimpleDM uid updated Task_completed)
                              (uniq (requester_user_id updated # opt_list (assignee_id updated))))
           in if req_view r = List_detail_modal then (s1, dms)
              else (case refresh_task_card e s1 teamId updated of
                      (s2, evs) \<Rightarrow> (s2, dms @ evs))))"

definition complete_task :: "env \<Rightarrow> request \<Rightarrow> store \<Rightarrow> store \<times> event list" where
  "complete_task e r s =
     (case js_or (val_team r) (req_team r) of
        None \<Rightarrow> (s, [])
      | Some teamId \<Rightarrow>
          (case val_task r of
             None \<Rightarrow> (s, [])
           | Some taskId \<Rightarrow>
               if teamId = [] \<or> taskId = [] then (s, [])
               else
                 (case dbGetTaskById s teamId taskId of
                    None \<Rightarrow> (s, [])
                  | Some t \<Rightarrow>
                      if task_type t = Broadcast
                      then complete_broadcast e r s teamId taskId t
                      else complete_personal e r s teamId taskId)))"

subsection \<open>confirm_broadcast_done\<close>

definition confirm_broadcast_done :: "env \<Rightarrow> request \<Rightarrow> store \<Rightarrow> store \<times> event list" where
  "confirm_broadcast_done e r s =
     (case js_or (val_team r) (req_team r) of
        None \<Rightarrow> (s, [])
      | Some teamId \<Rightarrow>
          (case val_task r of
             None \<Rightarrow> (s, [])
           | Some taskId \<Rightarrow>
               if teamId = [] \<or> taskId = [] then (s, [])
               else
                 (case dbGetTaskById s teamId taskId of
                    None \<Rightarrow> (s, [])
                  | Some t \<Rightarrow>
                      if task_type t \<noteq> Broadcast then (s, [])
                      else if status t = Done \<or> status t = Cancelled
                      then (s, [Ephemeral (channel_or_user t r) (Some (req_user r)) Already_closed])
                      else
                        (case dbUpdateStatus (clock e) s teamId taskId Done of
                           (s1, None) \<Rightarrow> (s1, [])
                         | (s1, Some updated) \<Rightarrow>
                             (let dms = concat (map (\<lambda>uid. notifyTaskSimpleDM uid updated Task_completed)
                                                 (uniq (requester_user_id updated
                                                          # dbListTargetUserIds s1 teamId taskId)))
                              in case refresh_task_card e s1 teamId updated of
                                   (s2, evs) \<Rightarrow> (s2, dms @ evs))))))"

subsection \<open>cancel_task\<close>

definition cancel_task :: "env \<Rightarrow> request \<Rightarrow> store \<Rightarrow> store \<times> event list" where
  "cancel_task e r s =
     (case js_or (val_team r) (req_team r) of
        None \<Rightarrow> (s, [])
      | Some teamId \<Rightarrow>
          (case val_task r of
             None \<Rightarrow> (s, [])
           | Some taskId \<Rightarrow>
               if teamId = [] \<or> taskId = [] then (s, [])
               else
                 (case dbGetTaskById s teamId taskId of
                    None \<Rightarrow> (s, [])
                  | Some t \<Rightarrow>
                      if requester_user_id t \<noteq> req_user r
                      then (s, [Ephemeral (channel_or_user t r) (Some (req_user r))
                                  Cancel_requester_only])
                      else
                        (case dbCancelTask (clock e) s teamId taskId (req_user r) of
                           (s1, None) \<Rightarrow> (s1, [])
                         | (s1, Some cancelled) \<Rightarrow>
                             if req_view r = List_detail_modal then (s1, [])
                             else refresh_task_card e s1 teamId cancelled))))"

subsection \<open>status_select\<close>

text \<open>
  The selected option is one of the values the select element offers; \<open>None\<close> is a
  payload without a selected option.
\<close>

definition status_select ::
  "env \<Rightarrow> request \<Rightarrow> status option \<Rightarrow> store \<Rightarrow> store \<times> event list" where
  "status_select e r nextStatus s =
     (case js_or (val_team r) (req_team r) of
        None \<Rightarrow> (s, [])
      | Some teamId \<Rightarrow>
          (case val_task r of
             None \<Rightarrow> (s, [])
           | Some taskId \<Rightarrow>
               (case nextStatus of
                  None \<Rightarrow> (s, [])
                | Some nxt \<Rightarrow>
                    if teamId = [] \<or> taskId = [] then (s, [])
                    else
                      (case dbGetTaskById s teamId taskId of
                         None \<Rightarrow> (s, [])
                       | Some t \<Rightarrow>
                           if task_type t = Broadcast
                           then (s, [Ephemeral (channel_or_user t r) (Some (req_user r))
                                       Broadcast_status_is_automatic])
                           else if requester_user_id t \<noteq> req_user r
                                   \<and> assignee_id t \<noteq> Some (req_user r)
                           then (s, [Ephemeral (channel_or_user t r) (Some (req_user r))
                                       Status_requester_or_assignee_only])
                           else
                             (case dbUpdateStatus (clock e) s teamId taskId nxt of
                                (s1, None) \<Rightarrow> (s1, [])
                              | (s1, Some updated) \<Rightarrow>
                                  if req_view r = List_detail_modal then (s1, [])
                                  else
                                    (case refresh_task_card e s1 teamId updated of
                                       (s2, evs) \<Rightarrow>
                                         (s2, evs @
                                           (if nxt = Waiting
                                            then postDM (requester_user_id updated) (status updated)
                                            else if nxt = Done
                                            then concat (map (\<lambda>uid. postDM uid (status updated))
                                                   (uniq (requester_user_id updated
                                                            # opt_list (assignee_id updated))))
                                            else []))))))))"

subsection \<open>edit_task_modal\<close>

text \<open>
  The submission of the edit view carries the selected assignee
  (\<open>selected_user || null\<close>), the selected due date (\<open>selected_date || null\<close>) and the
  trimmed content.  The actor is \<open>getUserIdFromBody(body)\<close>, the ids come from the
  private metadata without a truthiness check.
\<close>

definition canEditTask :: "task \<Rightarrow> string option \<Rightarrow> bool" where
  "canEditTask t actorUserId =
     ((task_type t \<noteq> Broadcast
         \<and> (actorUserId = Some (requester_user_id t) \<or> actorUserId = assignee_id t))
      \<or> (task_type t = Broadcast \<and> actorUserId = Some (requester_user_id t)))"

definition to_field :: "string option \<Rightarrow> string js_field" where
  "to_field v = (case v of None \<Rightarrow> Null | Some x \<Rightarrow> Val x)"

definition edit_task_modal ::
  "env \<Rightarrow> directory \<Rightarrow> request \<Rightarrow> string option \<Rightarrow> string option \<Rightarrow> string \<Rightarrow> store
     \<Rightarrow> store \<times> event list" where
  "edit_task_modal e d r nextAssignee nextDue nextContent s =
     (if nextContent = [] then (s, [Ack_errors])
      else
        (case js_or (val_team r) (req_team r) of
           None \<Rightarrow> (s, [Ack_ok])
         | Some teamId \<Rightarrow>
             (case val_task r of
                None \<Rightarrow> (s, [Ack_ok])
              | Some taskId \<Rightarrow>
                  (case dbGetTaskById s teamId taskId of
                     None \<Rightarrow> (s, [Ack_ok])
                   | Some before \<Rightarrow>
                       if \<not> canEditTask before (getUserIdFromBody r) then (s, [Ack_ok])
                       else if task_type before \<noteq> Broadcast \<and> \<not> truthy nextAssignee
                       then (s, [Ack_ok])
                       else
                         (let p = (if task_type before \<noteq> Broadcast
                                   then \<lparr>patch_assignee_id = to_field nextAssignee,
                                         patch_assignee_dept =
                                           to_field (case nextAssignee of
                                                       None \<Rightarrow> None
                                                     | Some a \<Rightarrow> resolve_dept d a),
                                         patch_due_date = to_field (js_or nextDue None),
                                         patch_description = Val nextContent\<rparr>
                                   else \<lparr>patch_assignee_id = Null,
                                         patch_assignee_dept = Null,
                                         patch_due_date = to_field (js_or nextDue None),
                                         patch_description = Val nextContent\<rparr>)
                          in case dbUpdateTaskContent (clock e) s teamId taskId p of
                               (s1, None) \<Rightarrow> (s1, [Ack_ok])
                             | (s1, Some updated) \<Rightarrow>
                                 (case refresh_task_card e s1 teamId updated of
                                    (s2, evs) \<Rightarrow>
                                      (s2, Ack_ok # evs @
                                        (case channel_id updated of
                                           None \<Rightarrow> []
                                         | Some ch \<Rightarrow>
                                             (case message_ts updated of
                                                None \<Rightarrow> []
                                              | Some ts \<Rightarrow>
                                                  if ch \<noteq> [] \<and> ts \<noteq> []
                                                  then [Change_log ch ts] else [])))))))))"

subsection \<open>task_modal (creation)\<close>

text \<open>
  The submission of the creation view: the description (already resolved from the
  input or the source message), the selected users, the values of the selected group
  options, the selected due date, and the channel, message timestamp and requester
  carried by the private metadata.  \<open>sub_status\<close> is the value a status block of the
  view would carry; the handler does not read it.
\<close>

record submission =
  sub_description :: string
  selected_users :: "string list"
  selected_group_values :: "string list"
  sub_due :: "string option"
  sub_status :: "status option"
  meta_channel :: "string option"
  meta_msg_ts :: "string option"
  meta_requester :: "string option"

definition expandTargetsFromGroups :: "directory \<Rightarrow> string list \<Rightarrow> string list" where
  "expandTargetsFromGroups d groupIds =
     foldl (\<lambda>users gid.
              case usergroup_users d gid of
                None \<Rightarrow> users
              | Some us \<Rightarrow> foldl set_add users us)
           [] groupIds"

definition target_list :: "directory \<Rightarrow> submission \<Rightarrow> string list" where
  "target_list d sub =
     foldl set_add (foldl set_add [] (selected_users sub))
       (expandTargetsFromGroups d (filter (\<lambda>g. g \<noteq> []) (selected_group_values sub)))"

definition or_empty :: "string option \<Rightarrow> string" where
  "or_empty v = (case v of None \<Rightarrow> [] | Some x \<Rightarrow> x)"

definition truthy_or_null :: "string \<Rightarrow> string option" where
  "truthy_or_null x = (if x = [] then None else Some x)"

text \<open>The row handed to \<open>dbCreateTask\<close>; creation time and update time are the clock.\<close>

definition new_task :: "env \<Rightarrow> directory \<Rightarrow> request \<Rightarrow> submission \<Rightarrow> task" where
  "new_task e d r sub =
     (let selectedGroupIds = filter (\<lambda>g. g \<noteq> []) (selected_group_values sub);
          targetList = target_list d sub;
          isPersonal = (length targetList = 1 \<and> selectedGroupIds = []);
          requesterUserId = or_empty (js_or (meta_requester sub) (Some (req_user r)));
          personalAssigneeId = (if isPersonal then Some (hd targetList) else None)
      in \<lparr>task_id = fresh_uuid e,
          team_id = or_empty (js_or (val_team r) (req_team r)),
          channel_id = truthy_or_null (or_empty (meta_channel sub)),
          message_ts = truthy_or_null (or_empty (meta_msg_ts sub)),
          description = sub_description sub,
          requester_user_id = requesterUserId,
          created_by_user_id = req_user r,
          assignee_id = personalAssigneeId,
          assignee_dept = (case personalAssigneeId of
                             None \<Rightarrow> None
                           | Some a \<Rightarrow> resolve_dept d a),
          status = In_progress,
          due_date = js_or (sub_due sub) None,
          task_type = (if isPersonal then Personal else Broadcast),
          total_count = (if isPersonal then None else Some (int (length targetList))),
          completed_count = Some 0,
          notified_at = None,
          updated_at = clock e,
          completed_at = None,
          cancelled_at = None,
          cancelled_by_user_id = None\<rparr>)"

text \<open>\<open>INSERT INTO tasks ... RETURNING *\<close>.\<close>

definition dbCreateTask :: "store \<Rightarrow> task \<Rightarrow> store \<times> task" where
  "dbCreateTask s t = (s\<lparr>tasks := tasks s @ [t]\<rparr>, t)"

text \<open>
  The store after \<open>dbCreateTask\<close> and, for a broadcast task, after the snapshot of the
  targets (\<open>dbInsertTaskTargets\<close>, \<open>dbCountTargets\<close>, \<open>dbUpdateBroadcastCounts\<close>).
\<close>

definition store_created :: "env \<Rightarrow> directory \<Rightarrow> request \<Rightarrow> submission \<Rightarrow> store \<Rightarrow> store" where
  "store_created e d r sub s =
     (let teamId = or_empty (js_or (val_team r) (req_team r));
          row = new_task e d r sub;
          s1 = fst (dbCreateTask s row)
      in if task_type row = Broadcast
         then (let s2 = dbInsertTaskTargets s1 teamId (fresh_uuid e) (target_list d sub)
               in fst (dbUpdateBroadcastCounts (clock e) s2 teamId (fresh_uuid e) 0
                         (Some (dbCountTargets s2 teamId (fresh_uuid e)))))
         else s1)"

text \<open>
  The local object \<open>created\<close>: the row returned by the insert, with the counts the
  handler assigns to it for a broadcast task.
\<close>

definition created_object :: "env \<Rightarrow> directory \<Rightarrow> request \<Rightarrow> submission \<Rightarrow> store \<Rightarrow> task" where
  "created_object e d r sub s =
     (let teamId = or_empty (js_or (val_team r) (req_team r));
          row = new_task e d r sub
      in case dbCreateTask s row of
           (s1, created0) \<Rightarrow>
             if task_type row = Broadcast
             then created0\<lparr>total_count :=
                    Some (dbCountTargets
                            (dbInsertTaskTargets s1 teamId (fresh_uuid e) (target_list d sub))
                            teamId (fresh_uuid e)),
                  completed_count := Some 0\<rparr>
             else created0)"

text \<open>The "a task has arrived" messages: to the assignee, or to every target, the actor excepted.\<close>

definition creation_dms :: "request \<Rightarrow> string list \<Rightarrow> task \<Rightarrow> event list" where
  "creation_dms r targetList created =
     (if task_type created = Personal
      then (case assignee_id created of
              None \<Rightarrow> []
            | Some to \<Rightarrow>
                if to \<noteq> [] \<and> to \<noteq> req_user r
                then notifyTaskSimpleDM to created Task_arrived else [])
      else concat (map (\<lambda>uid. notifyTaskSimpleDM uid created Task_arrived)
                     (filter (\<lambda>u. u \<noteq> [] \<and> u \<noteq> req_user r) targetList)))"

text \<open>
  The handler answers a submission without users and without groups with the two
  field errors and creates nothing.  Otherwise it stores the task, snapshots the
  targets of a broadcast task, notifies the assignee or the targets other than the
  actor, and posts the thread card.  The third component is the local object \<open>created\<close>.
\<close>

definition task_modal ::
  "env \<Rightarrow> directory \<Rightarrow> request \<Rightarrow> submission \<Rightarrow> store \<Rightarrow> store \<times> event list \<times> task option" where
  "task_modal e d r sub s =
     (let selectedGroupIds = filter (\<lambda>g. g \<noteq> []) (selected_group_values sub)
      in if selected_users sub = [] \<and> selectedGroupIds = [] then (s, [Ack_errors], None)
         else
           (let teamId = or_empty (js_or (val_team r) (req_team r));
                s3 = store_created e d r sub s;
                created = created_object e d r sub s;
                dms = creation_dms r (target_list d sub) created
            in if truthy (channel_id created) \<and> truthy (message_ts created)
                  \<and> \<not> startsWithD (or_empty (channel_id created))
               then (case upsertThreadCard e s3 teamId (or_empty (meta_channel sub))
                            (or_empty (meta_msg_ts sub)) None of
                       (s4, evs, x) \<Rightarrow> (s4, Ack_ok # dms @ evs, Some created))
               else (s3, Ack_ok # dms, Some created)))"

text \<open>
  The resolved target set in the words of the specification: the selected individuals
  together with the members of every selected group.
\<close>

definition group_members :: "directory \<Rightarrow> string \<Rightarrow> string set" where
  "group_members d g = (case usergroup_users d g of None \<Rightarrow> {} | Some us \<Rightarrow> set us)"

definition target_set :: "directory \<Rightarrow> submission \<Rightarrow> string set" where
  "target_set d sub =
     set (selected_users sub)
       \<union> (\<Union>g \<in> set (filter (\<lambda>g. g \<noteq> []) (selected_group_values sub)). group_members d g)"

definition selected_groups :: "submission \<Rightarrow> string list" where
  "selected_groups sub = filter (\<lambda>g. g \<noteq> []) (selected_group_values sub)"

text \<open>The "everyone has completed" messages among the events of a handler.\<close>

fun is_confirm :: "event \<Rightarrow> bool" where
  "is_confirm (Requester_confirm_dm a b c) = True"
| "is_confirm ev = False"

text \<open>The columns of the unique constraint of \<open>task_completions\<close> and \<open>task_targets\<close>.\<close>

definition completion_key :: "member_row \<Rightarrow> string \<times> string" where
  "completion_key x = (row_task_id x, row_user_id x)"

section \<open>Requests in flight\<close>

text \<open>
  A handler is an async function: each \<open>db...\<close> call and each Slack call is awaited,
  and between two awaits another request may run.  The broadcast branch of
  \<open>complete_task\<close> is given here statement by statement, from the insert of the
  completion row on, that is, for a request that has read the row \<open>task\<close> and has found
  its user among the targets.  A flight holds the constants of the request (\<open>teamId\<close>,
  \<open>taskId\<close>, \<open>userId\<close>, \<open>task\<close>), its locals \<open>total\<close>, \<open>doneCount\<close> and \<open>fresh\<close>, and
  the statement it executes next:
  \<^item> \<open>Insert_completion\<close>: \<open>await dbUpsertCompletion(teamId, taskId, userId)\<close>;
  \<^item> \<open>Read_total\<close>: \<open>const total = task.total_count || (await dbCountTargets(teamId, taskId))\<close>;
  \<^item> \<open>Count_completions\<close>: \<open>const doneCount = await dbCountCompletions(teamId, taskId)\<close>
    and the test \<open>doneCount >= total && total > 0\<close>;
  \<^item> \<open>Read_fresh\<close>: \<open>const fresh = await dbGetTaskById(teamId, taskId)\<close>;
  \<^item> \<open>Update_status\<close>: \<open>await dbUpdateStatus(teamId, taskId, "waiting")\<close> when \<open>fresh\<close>
    is not waiting, done or cancelled;
  \<^item> \<open>Update_notified\<close>: the test \<open>fresh && !fresh.notified_at\<close> and the conditional
    update of \<open>notified_at\<close>, whose result the handler does not read;
  \<^item> \<open>Send_confirm\<close>: \<open>await postRequesterConfirmDM(...)\<close> with the requester of \<open>fresh\<close>;
  \<^item> \<open>Refresh_card\<close>: the refresh of the thread card that ends the branch, taken as one
    step (it touches neither \<open>tasks\<close> nor \<open>task_completions\<close>);
  \<^item> \<open>Returned\<close>: the handler has returned.
\<close>

datatype pc =
    Insert_completion
  | Read_total
  | Count_completions
  | Read_fresh
  | Update_status
  | Update_notified
  | Send_confirm
  | Refresh_card
  | Returned

record flight =
  fl_env :: env
  fl_team :: string
  fl_task_id :: string
  fl_user :: string
  fl_task :: task
  fl_total :: int
  fl_done :: int
  fl_fresh :: "task option"
  fl_pc :: pc

definition start_flight :: "env \<Rightarrow> string \<Rightarrow> string \<Rightarrow> task \<Rightarrow> string \<Rightarrow> flight" where
  "start_flight e teamId taskId t userId =
     \<lparr>fl_env = e, fl_team = teamId, fl_task_id = taskId, fl_user = userId, fl_task = t,
       fl_total = 0, fl_done = 0, fl_fresh = None, fl_pc = Insert_completion\<rparr>"

text \<open>
  The end of the branch: when the row \<open>task\<close> read at the start has a channel and a
  message timestamp, read the row again and refresh its thread card.
\<close>

definition refresh_after_completion ::
  "env \<Rightarrow> store \<Rightarrow> string \<Rightarrow> string \<Rightarrow> task \<Rightarrow> store \<times> event list" where
  "refresh_after_completion e s teamId taskId t =
     (if truthy (channel_id t) \<and> truthy (message_ts t)
      then (case dbGetTaskById s teamId taskId of
              None \<Rightarrow> (s, [])
            | Some refreshed \<Rightarrow> refresh_task_card e s teamId refreshed)
      else (s, []))"

text \<open>One statement of a flight: the flight afterwards, the store afterwards, the Slack calls made.\<close>

definition flight_step :: "flight \<Rightarrow> store \<Rightarrow> flight \<times> store \<times> event list" where
  "flight_step f s =
     (case fl_pc f of
        Insert_completion \<Rightarrow>
          (f\<lparr>fl_pc := Read_total\<rparr>,
           dbUpsertCompletion s (fl_team f) (fl_task_id f) (fl_user f), [])
      | Read_total \<Rightarrow>
          (f\<lparr>fl_total := total_of s (fl_team f) (fl_task_id f) (fl_task f),
             fl_pc := Count_completions\<rparr>, s, [])
      | Count_completions \<Rightarrow>
          (let doneCount = dbCountCompletions s (fl_team f) (fl_task_id f)
           in (f\<lparr>fl_done := doneCount,
                 fl_pc := (if doneCount \<ge> fl_total f \<and> fl_total f > 0
                           then Read_fresh else Refresh_card)\<rparr>, s, []))
      | Read_fresh \<Rightarrow>
          (f\<lparr>fl_fresh := dbGetTaskById s (fl_team f) (fl_task_id f), fl_pc := Update_status\<rparr>,
           s, [])
      | Update_status \<Rightarrow>
          (case fl_fresh f of
             None \<Rightarrow> (f\<lparr>fl_pc := Refresh_card\<rparr>, s, [])
           | Some fresh \<Rightarrow>
               (f\<lparr>fl_pc := Update_notified\<rparr>,
                if status fresh \<noteq> Waiting \<and> status fresh \<noteq> Done \<and> status fresh \<noteq> Cancelled
                then fst (dbUpdateStatus (clock (fl_env f)) s (fl_team f) (fl_task_id f) Waiting)
                else s,
                []))
      | Update_notified \<Rightarrow>
          (case fl_fresh f of
             None \<Rightarrow> (f\<lparr>fl_pc := Refresh_card\<rparr>, s, [])
           | Some fresh \<Rightarrow>
               if notified_at fresh = None
               then (f\<lparr>fl_pc := Send_confirm\<rparr>,
                     dbSetNotifiedIfNull (clock (fl_env f)) s (fl_team f) (fl_task_id f), [])
               else (f\<lparr>fl_pc := Refresh_card\<rparr>, s, []))
      | Send_confirm \<Rightarrow>
          (case fl_fresh f of
             None \<Rightarrow> (f\<lparr>fl_pc := Refresh_card\<rparr>, s, [])
           | Some fresh \<Rightarrow>
               (f\<lparr>fl_pc := Refresh_card\<rparr>, s,
                postRequesterConfirmDM (fl_team f) (fl_task_id f) (requester_user_id fresh)))
      | Refresh_card \<Rightarrow>
          (case refresh_after_completion (fl_env f) s (fl_team f) (fl_task_id f) (fl_task f) of
             (s3, evs3) \<Rightarrow> (f\<lparr>fl_pc := Returned\<rparr>, s3, evs3))
      | Returned \<Rightarrow> (f, s, []))"

text \<open>A flight running alone for \<open>n\<close> statements.\<close>

fun flight_run :: "nat \<Rightarrow> flight \<Rightarrow> store \<Rightarrow> flight \<times> store \<times> event list" where
  "flight_run 0 f s = (f, s, [])"
| "flight_run (Suc n) f s =
     (case flight_step f s of
        (f1, s1, evs) \<Rightarrow>
          (case flight_run n f1 s1 of (f2, s2, evs2) \<Rightarrow> (f2, s2, evs @ evs2)))"

text \<open>
  Two flights on one store.  The schedule says, statement by statement, which of the
  two runs next (\<open>True\<close> for the first).
\<close>

fun interleave ::
  "bool list \<Rightarrow> flight \<Rightarrow> flight \<Rightarrow> store \<Rightarrow> flight \<times> flight \<times> store \<times> event list" where
  "interleave [] f g s = (f, g, s, [])"
| "interleave (b # bs) f g s =
     (if b
      then (case flight_step f s of
              (f1, s1, evs) \<Rightarrow>
                (case interleave bs f1 g s1 of
                   (f2, g2, s2, evs2) \<Rightarrow> (f2, g2, s2, evs @ evs2)))
      else (case flight_step g s of
              (g1, s1, evs) \<Rightarrow>
                (case interleave bs f g1 s1 of
                   (f2, g2, s2, evs2) \<Rightarrow> (f2, g2, s2, evs @ evs2))))"

section \<open>A sample store\<close>

text \<open>
  Team \<open>T1\<close> with a personal task \<open>t1\<close> (requester \<open>UR\<close>, assignee \<open>UX\<close>, due
  2026-04-25) and a broadcast task \<open>t2\<close> (requester \<open>UR\<close>, targets \<open>UA\<close>, \<open>UB\<close>, \<open>UC\<close>)
  created from message \<open>100.0\<close> of channel \<open>C1\<close>.
\<close>

definition task_p1 :: task where
  "task_p1 =
     \<lparr>task_id = ''t1'', team_id = ''T1'', channel_id = None, message_ts = None,
       description = ''write the plan'', requester_user_id = ''UR'',
       created_by_user_id = ''UR'', assignee_id = Some ''UX'', assignee_dept = None,
       status = In_progress, due_date = Some ''2026-04-25'', task_type = Personal,
       total_count = None, completed_count = Some 0, notified_at = None, updated_at = 0,
       completed_at = None, cancelled_at = None, cancelled_by_user_id = None\<rparr>"

definition task_b1 :: task where
  "task_b1 =
     \<lparr>task_id = ''t2'', team_id = ''T1'', channel_id = Some ''C1'', message_ts = Some ''100.0'',
       description = ''read the memo'', requester_user_id = ''UR'',
       created_by_user_id = ''UR'', assignee_id = None, assignee_dept = None,
       status = In_progress, due_date = None, task_type = Broadcast,
       total_count = Some 3, completed_count = Some 0, notified_at = None, updated_at = 0,
       completed_at = None, cancelled_at = None, cancelled_by_user_id = None\<rparr>"

definition target_of_b1 :: "string \<Rightarrow> member_row" where
  "target_of_b1 u = \<lparr>row_task_id = ''t2'', row_team_id = ''T1'', row_user_id = u\<rparr>"

definition store0 :: store where
  "store0 =
     \<lparr>tasks = [task_p1, task_b1],
       task_targets = [target_of_b1 ''UA'', target_of_b1 ''UB'', target_of_b1 ''UC''],
       task_completions = [],
       thread_cards = []\<rparr>"

definition env0 :: env where
  "env0 = \<lparr>clock = 7, fresh_uuid = ''u7'', post_reply = Some ''200.7''\<rparr>"

definition dir0 :: directory where
  "dir0 = \<lparr>usergroup_users = (\<lambda>g. if g = ''G1'' then Some [''UA'', ''UB''] else None),
            resolve_dept = (\<lambda>u. None)\<rparr>"

text \<open>A button press by user \<open>u\<close> on task \<open>k\<close> of team \<open>T1\<close>, from a detail view.\<close>

definition press :: "string \<Rightarrow> string \<Rightarrow> request" where
  "press u k =
     \<lparr>req_user = u, req_team = Some ''T1'', req_view = Detail_modal,
       val_team = Some ''T1'', val_task = Some k\<rparr>"

text \<open>A submission by \<open>UR\<close> that selects user \<open>UA\<close> and group \<open>G1\<close> (members \<open>UA\<close>, \<open>UB\<close>).\<close>

definition sub0 :: submission where
  "sub0 =
     \<lparr>sub_description = ''read the memo'', selected_users = [''UA''],
       selected_group_values = [''G1''], sub_due = None, sub_status = Some Open,
       meta_channel = Some ''C1'', meta_msg_ts = Some ''100.5'', meta_requester = Some ''UR''\<rparr>"

text \<open>
  The sample store after \<open>UA\<close> has completed \<open>t2\<close>, with the environment of a second
  request; the sample store after \<open>UA\<close> and \<open>UB\<close> have completed \<open>t2\<close>, a store in which the
  broadcast task \<open>t2\<close> is cancelled, and a store in which the personal task \<open>t1\<close> is
  done.
\<close>

definition store1 :: store where
  "store1 = store0\<lparr>task_completions := [target_of_b1 ''UA'']\<rparr>"

definition env1 :: env where
  "env1 = \<lparr>clock = 8, fresh_uuid = ''u8'', post_reply = Some ''200.8''\<rparr>"

definition store2 :: store where
  "store2 = store0\<lparr>task_completions := [target_of_b1 ''UA'', target_of_b1 ''UB'']\<rparr>"

definition store4 :: store where
  "store4 =
     store0\<lparr>tasks := [task_p1, task_b1\<lparr>status := Cancelled, cancelled_at := Some 5,
                                     cancelled_by_user_id := Some ''UR''\<rparr>]\<rparr>"

definition store3 :: store where
  "store3 = store0\<lparr>tasks := [task_p1\<lparr>status := Done, completed_at := Some 5\<rparr>, task_b1]\<rparr>"

text \<open>
  Two schedules for two flights of eight statements each: in turn, one statement
  each, and the first flight to its end before the second starts.
\<close>

definition schedule0 :: "bool list" where
  "schedule0 = [True, False, True, False, True, False, True, False,
                True, False, True, False, True, False, True, False]"

definition schedule1 :: "bool list" where
  "schedule1 = [True, True, True, True, True, True, True, True,
                False, False, False, False, False, False, False, False]"

section \<open>Derived state of a broadcast task\<close>

text \<open>
  The five labels \<open>calcBroadcastStateLabel\<close> returns, in the order of the source:
  "torisage" (withdrawn), "kanryo" (done), "kakunin-machi" (waiting for confirmation),
  "taiou-chu" (being worked on), "michakushu" (not started).
\<close>

datatype state_label = Torisage | Kanryo | Kakunin_machi | Taiou_chu | Michakushu

text \<open>\<open>Number(x || 0)\<close> on a nullable integer column.\<close>

definition num_or_zero :: "int option \<Rightarrow> int" where
  "num_or_zero v = (case v of None \<Rightarrow> 0 | Some n \<Rightarrow> (if n = 0 then 0 else n))"

definition calcBroadcastStateLabel :: "task \<Rightarrow> state_label" where
  "calcBroadcastStateLabel t =
     (if status t = Cancelled then Torisage
      else if status t = Done then Kanryo
      else let tot = num_or_zero (total_count t);
               dn = num_or_zero (completed_count t)
           in if tot > 0 \<and> dn \<ge> tot then Kakunin_machi
              else if dn > 0 then Taiou_chu
              else Michakushu)"

text \<open>
  The derived state as the specification words it: the terminal status wins, then
  waiting when every target has completed, then in progress, then open.
\<close>

definition derived_state_spec :: "status \<Rightarrow> int \<Rightarrow> int \<Rightarrow> status" where
  "derived_state_spec st tot completions =
     (if st = Done \<or> st = Cancelled then st
      else if tot > 0 \<and> completions \<ge> tot then Waiting
      else if completions > 0 then In_progress
      else Open)"

fun label_of_state :: "status \<Rightarrow> state_label" where
  "label_of_state Cancelled = Torisage"
| "label_of_state Done = Kanryo"
| "label_of_state Waiting = Kakunin_machi"
| "label_of_state In_progress = Taiou_chu"
| "label_of_state Open = Michakushu"

section \<open>Theorems\<close>

text \<open>
  C5.  For every task, the label computed by \<open>calcBroadcastStateLabel\<close> is the label of
  the derived state of the specification: the terminal status when the status is done or
  cancelled (counts ignored), otherwise waiting when the total is positive and the
  completed count has reached it, otherwise in progress when the completed count is
  positive, otherwise open.  Null counts read as zero.
\<close>

theorem calcBroadcastStateLabel_derived:
  "calcBroadcastStateLabel t =
     label_of_state (derived_state_spec (status t)
        (case total_count t of None \<Rightarrow> 0 | Some n \<Rightarrow> n)
        (case completed_count t of None \<Rightarrow> 0 | Some n \<Rightarrow> n))"
  by (cases "status t")
     (auto simp: calcBroadcastStateLabel_def derived_state_spec_def num_or_zero_def Let_def
           split: option.splits)

subsection \<open>Thread cards\<close>

lemma find_append_new:
  "find P xs = None \<Longrightarrow> P x \<Longrightarrow> find P (xs @ [x]) = Some x"
  by (induction xs) (auto split: if_splits)

lemma filter_none_of_find:
  "find P xs = None \<Longrightarrow> filter P xs = []"
  by (induction xs) (auto split: if_splits)

lemma length_filter_map_same:
  "(\<And>x. P (f x) = P x) \<Longrightarrow> length (filter P (map f xs)) = length (filter P xs)"
  by (induction xs) auto

lemma upsertThreadCard_existing:
  assumes "dbGetThreadCard s teamId channelId parentTs = Some x"
    and "card_ts x = Some c" and "c \<noteq> []"
  shows "upsertThreadCard e s teamId channelId parentTs th = (s, [Card_update channelId c], Some c)"
  using assms by (simp add: upsertThreadCard_def)

lemma refresh_card_existing:
  assumes "dbGetThreadCard s teamId channelId parentTs = Some x"
    and "card_ts x = Some c" and "c \<noteq> []"
  shows "refresh_card es s teamId channelId parentTs
           = (s, replicate (length es) (Card_update channelId c))"
  using assms by (induction es) (simp_all add: upsertThreadCard_existing)

lemma upsertThreadCard_first:
  assumes "dbGetThreadCard s teamId channelId parentTs = None"
    and "post_reply e = Some c" and "c \<noteq> []"
  shows "upsertThreadCard e s teamId channelId parentTs None
           = (s\<lparr>thread_cards := thread_cards s @ [new_card e teamId channelId parentTs c]\<rparr>,
              [Card_post channelId parentTs], Some c)"
  using assms
  by (simp add: upsertThreadCard_def post_card_def dbUpsertThreadCard_def js_or_def truthy_def
        new_card_def Let_def)

text \<open>Whatever key a refresh works on, no key ever gets a second row.\<close>

lemma card_rows_dbUpsertThreadCard_le:
  assumes "length (card_rows s t c p) \<le> 1"
  shows "length (card_rows (dbUpsertThreadCard e s t' c' p' ts) t c p) \<le> 1"
proof (cases "dbGetThreadCard s t' c' p'")
  case (Some x)
  have "length (filter (is_card t c p)
          (map (\<lambda>r. if is_card t' c' p' r then r\<lparr>card_ts := Some ts, card_updated_at := clock e\<rparr> else r)
               (thread_cards s)))
        = length (filter (is_card t c p) (thread_cards s))"
    by (rule length_filter_map_same) (simp add: is_card_def)
  with Some assms show ?thesis
    by (simp add: dbUpsertThreadCard_def card_rows_def)
next
  case None
  show ?thesis
  proof (cases "t = t' \<and> c = c' \<and> p = p'")
    case True
    with None have "filter (is_card t c p) (thread_cards s) = []"
      by (simp add: dbGetThreadCard_def filter_none_of_find)
    with None show ?thesis
      by (simp add: dbUpsertThreadCard_def card_rows_def)
  next
    case False
    with None assms show ?thesis
      by (auto simp: dbUpsertThreadCard_def card_rows_def is_card_def)
  qed
qed

lemma card_rows_upsertThreadCard_le:
  assumes "length (card_rows s t c p) \<le> 1"
  shows "length (card_rows (fst (upsertThreadCard e s t' c' p' th)) t c p) \<le> 1"
  using assms card_rows_dbUpsertThreadCard_le [OF assms]
  by (simp add: upsertThreadCard_def post_card_def Let_def split: option.splits)

text \<open>
  C4.  On a key (teamId, channelId, parentTs) that has no thread-card row, running the
  refresh protocol on N requests (N at least 1), the first of which gets a message
  timestamp \<open>c\<close> back from \<open>chat.postMessage\<close>, posts one card (in the first request) and
  edits that recorded message \<open>c\<close> in each of the N - 1 later requests; afterwards the key
  has exactly one row, the one inserted by the first request.
\<close>

theorem thread_card_refresh_idempotent:
  assumes "dbGetThreadCard s teamId channelId parentTs = None"
    and "post_reply e = Some c" and "c \<noteq> []"
  shows "refresh_card (e # es) s teamId channelId parentTs
           = (s\<lparr>thread_cards := thread_cards s @ [new_card e teamId channelId parentTs c]\<rparr>,
              Card_post channelId parentTs # replicate (length es) (Card_update channelId c))
         \<and> card_rows (fst (refresh_card (e # es) s teamId channelId parentTs))
              teamId channelId parentTs
           = [new_card e teamId channelId parentTs c]"
proof -
  let ?row = "new_card e teamId channelId parentTs c"
  let ?s1 = "s\<lparr>thread_cards := thread_cards s @ [?row]\<rparr>"
  have key: "is_card teamId channelId parentTs ?row"
    by (simp add: is_card_def new_card_def)
  have none: "find (is_card teamId channelId parentTs) (thread_cards s) = None"
    using assms(1) by (simp add: dbGetThreadCard_def)
  have got: "dbGetThreadCard ?s1 teamId channelId parentTs = Some ?row"
    using find_append_new [OF none key] by (simp add: dbGetThreadCard_def)
  have ts: "card_ts ?row = Some c" by (simp add: new_card_def)
  have rest: "refresh_card es ?s1 teamId channelId parentTs
                = (?s1, replicate (length es) (Card_update channelId c))"
    by (rule refresh_card_existing [OF got ts assms(3)])
  have run: "refresh_card (e # es) s teamId channelId parentTs
               = (?s1, Card_post channelId parentTs # replicate (length es) (Card_update channelId c))"
    by (simp add: upsertThreadCard_first [OF assms] rest)
  have rows: "card_rows ?s1 teamId channelId parentTs = [?row]"
    using filter_none_of_find [OF none] key by (simp add: card_rows_def)
  show ?thesis using run rows by simp
qed

theorem thread_card_refresh_idempotent_witness:
  "refresh_card
     [\<lparr>clock = 1, fresh_uuid = ''u1'', post_reply = Some ''200.1''\<rparr>,
      \<lparr>clock = 2, fresh_uuid = ''u2'', post_reply = Some ''200.2''\<rparr>,
      \<lparr>clock = 3, fresh_uuid = ''u3'', post_reply = None\<rparr>]
     empty_store ''T1'' ''C1'' ''100.0''
   = (empty_store\<lparr>thread_cards :=
        [\<lparr>card_id = ''u1'', card_team_id = ''T1'', card_channel_id = ''C1'',
          parent_ts = ''100.0'', card_ts = Some ''200.1'', card_updated_at = 1\<rparr>]\<rparr>,
      [Card_post ''C1'' ''100.0'', Card_update ''C1'' ''200.1'', Card_update ''C1'' ''200.1''])"
proof -
  have h1: "dbGetThreadCard empty_store ''T1'' ''C1'' ''100.0'' = None"
    by (simp add: dbGetThreadCard_def empty_store_def)
  have h2: "post_reply \<lparr>clock = 1, fresh_uuid = ''u1'', post_reply = Some ''200.1''\<rparr> = Some ''200.1''"
    by simp
  have h3: "''200.1'' \<noteq> []" by simp
  show ?thesis
    using thread_card_refresh_idempotent [OF h1 h2 h3,
            of "[\<lparr>clock = 2, fresh_uuid = ''u2'', post_reply = Some ''200.2''\<rparr>,
                 \<lparr>clock = 3, fresh_uuid = ''u3'', post_reply = None\<rparr>]"]
    by (simp add: new_card_def empty_store_def)
qed

subsection \<open>Rows of \<open>tasks\<close> under an update\<close>

lemma find_map_tasks:
  assumes "\<And>t. team_id (f t) = team_id t" and "\<And>t. task_id (f t) = task_id t"
  shows "find (is_task a b) (map (\<lambda>t. if is_task a' b' t then f t else t) xs)
           = map_option (\<lambda>t. if is_task a' b' t then f t else t) (find (is_task a b) xs)"
  using assms by (induction xs) (auto simp: is_task_def)

lemma update_tasks_get:
  assumes "\<And>t. team_id (f t) = team_id t" and "\<And>t. task_id (f t) = task_id t"
  shows "dbGetTaskById (fst (update_tasks f a' b' s)) a b
           = map_option (\<lambda>t. if is_task a' b' t then f t else t) (dbGetTaskById s a b)"
  using find_map_tasks [of f a b a' b' "tasks s", OF assms]
  by (simp add: update_tasks_def dbGetTaskById_def Let_def)

lemma update_tasks_snd:
  "snd (update_tasks f a b s) = dbGetTaskById (fst (update_tasks f a b s)) a b"
  by (simp add: update_tasks_def dbGetTaskById_def Let_def)

lemma find_is_task: "find (is_task a b) xs = Some t \<Longrightarrow> is_task a b t"
  by (induction xs) (auto split: if_splits)

lemma dbGetTaskById_is_task: "dbGetTaskById s a b = Some t \<Longrightarrow> is_task a b t"
  unfolding dbGetTaskById_def by (rule find_is_task)

lemma dbUpdateTaskContent_row:
  assumes "dbGetTaskById s teamId taskId = Some t"
  shows "snd (dbUpdateTaskContent c s teamId taskId p)
           = Some (t\<lparr>assignee_id := coalesce (nullish (patch_assignee_id p)) (assignee_id t),
                     assignee_dept := coalesce (nullish (patch_assignee_dept p)) (assignee_dept t),
                     due_date := nullish (patch_due_date p),
                     description :=
                       (case nullish (patch_description p) of Some d \<Rightarrow> d | None \<Rightarrow> description t),
                     updated_at := c\<rparr>)"
  using assms dbGetTaskById_is_task [OF assms]
  by (simp add: dbUpdateTaskContent_def update_tasks_snd update_tasks_get)

lemma dbUpdateStatus_row:
  assumes "dbGetTaskById s teamId taskId = Some t"
  shows "snd (dbUpdateStatus c s teamId taskId st)
           = Some (t\<lparr>status := st,
                     completed_at := (if st = Done then Some c else completed_at t),
                     updated_at := c\<rparr>)"
  using assms dbGetTaskById_is_task [OF assms]
  by (simp add: dbUpdateStatus_def update_tasks_snd update_tasks_get)

lemma dbUpdateStatus_get:
  "dbGetTaskById (fst (dbUpdateStatus c s teamId taskId st)) teamId taskId
     = snd (dbUpdateStatus c s teamId taskId st)"
  by (simp add: dbUpdateStatus_def update_tasks_snd)

lemma dbUpdateStatus_frame:
  "task_targets (fst (dbUpdateStatus c s a b st)) = task_targets s
   \<and> task_completions (fst (dbUpdateStatus c s a b st)) = task_completions s
   \<and> thread_cards (fst (dbUpdateStatus c s a b st)) = thread_cards s"
  by (simp add: dbUpdateStatus_def update_tasks_def Let_def)

lemma upsertThreadCard_frame:
  "tasks (fst (upsertThreadCard e s a c p th)) = tasks s
   \<and> task_targets (fst (upsertThreadCard e s a c p th)) = task_targets s
   \<and> task_completions (fst (upsertThreadCard e s a c p th)) = task_completions s"
  by (simp add: upsertThreadCard_def post_card_def dbUpsertThreadCard_def Let_def
           split: option.splits)

lemma refresh_task_card_frame:
  "tasks (fst (refresh_task_card e s a t)) = tasks s
   \<and> task_targets (fst (refresh_task_card e s a t)) = task_targets s
   \<and> task_completions (fst (refresh_task_card e s a t)) = task_completions s"
  using upsertThreadCard_frame
  by (auto simp: refresh_task_card_def split: option.splits prod.splits)
     (metis fst_conv)+

subsection \<open>Content update\<close>

text \<open>
  C9 (as amended).  \<open>dbUpdateTaskContent\<close> writes the due date of the patch as it is,
  with a left-out due date read as null: a null due date clears the stored one, and so
  does a patch without the field.  Assignee and description keep the stored value when
  the patch gives null or leaves the field out, and take the value of the patch
  otherwise.  The row returned is the row stored.
\<close>

theorem dbUpdateTaskContent_fields:
  assumes "dbGetTaskById s teamId taskId = Some t"
  shows "map_option due_date (snd (dbUpdateTaskContent c s teamId taskId p))
           = Some (nullish (patch_due_date p))
       \<and> map_option assignee_id (snd (dbUpdateTaskContent c s teamId taskId p))
           = Some (case nullish (patch_assignee_id p) of Some a \<Rightarrow> Some a | None \<Rightarrow> assignee_id t)
       \<and> map_option description (snd (dbUpdateTaskContent c s teamId taskId p))
           = Some (case nullish (patch_description p) of Some a \<Rightarrow> a | None \<Rightarrow> description t)
       \<and> dbGetTaskById (fst (dbUpdateTaskContent c s teamId taskId p)) teamId taskId
           = snd (dbUpdateTaskContent c s teamId taskId p)"
  using dbUpdateTaskContent_row [OF assms, of c p]
  by (simp add: coalesce_def update_tasks_snd dbUpdateTaskContent_def split: option.splits)

theorem dbUpdateTaskContent_fields_witness:
  "map_option due_date
     (snd (dbUpdateTaskContent 7 store0 ''T1'' ''t1''
             \<lparr>patch_assignee_id = Null, patch_assignee_dept = Null,
               patch_due_date = Null, patch_description = Val ''write the plan today''\<rparr>))
     = Some None
   \<and> map_option assignee_id
       (snd (dbUpdateTaskContent 7 store0 ''T1'' ''t1''
               \<lparr>patch_assignee_id = Null, patch_assignee_dept = Null,
                 patch_due_date = Null, patch_description = Val ''write the plan today''\<rparr>))
     = Some (Some ''UX'')
   \<and> map_option description
       (snd (dbUpdateTaskContent 7 store0 ''T1'' ''t1''
               \<lparr>patch_assignee_id = Null, patch_assignee_dept = Null,
                 patch_due_date = Null, patch_description = Val ''write the plan today''\<rparr>))
     = Some ''write the plan today''"
proof -
  have h: "dbGetTaskById store0 ''T1'' ''t1'' = Some task_p1"
    by (simp add: dbGetTaskById_def store0_def is_task_def task_p1_def)
  show ?thesis
    using dbUpdateTaskContent_fields [OF h, of 7
            "\<lparr>patch_assignee_id = Null, patch_assignee_dept = Null,
              patch_due_date = Null, patch_description = Val ''write the plan today''\<rparr>"]
    by (simp add: task_p1_def)
qed

text \<open>
  The claim as stated fails: a patch that leaves the due date out does not keep the
  stored date 2026-04-25 of task \<open>t1\<close>, it clears it.
\<close>

theorem dbUpdateTaskContent_omitted_due_counterexample:
  "map_option due_date (dbGetTaskById store0 ''T1'' ''t1'') = Some (Some ''2026-04-25'')
   \<and> map_option due_date
         (snd (dbUpdateTaskContent 7 store0 ''T1'' ''t1''
                 \<lparr>patch_assignee_id = Omitted, patch_assignee_dept = Omitted,
                   patch_due_date = Omitted, patch_description = Omitted\<rparr>))
       = Some None"
  by (simp add: dbUpdateTaskContent_def update_tasks_def dbGetTaskById_def store0_def
        task_p1_def task_b1_def is_task_def coalesce_def Let_def)

subsection \<open>Forced completion of a broadcast task\<close>

text \<open>
  C3.  For a request that addresses an existing task, whoever the acting user is:
  on a broadcast task that is neither done nor cancelled, \<open>confirm_broadcast_done\<close>
  sets the status to done (stamping the completion time); on a broadcast task that is
  done or cancelled it changes nothing and answers with the "already done or
  withdrawn" message; on a task that is not a broadcast it changes nothing and stays
  silent.
\<close>

theorem confirm_broadcast_done_any_user:
  assumes "js_or (val_team r) (req_team r) = Some teamId" and "val_task r = Some taskId"
    and "teamId \<noteq> []" and "taskId \<noteq> []"
    and "dbGetTaskById s teamId taskId = Some t"
  shows "(task_type t = Broadcast \<and> status t \<noteq> Done \<and> status t \<noteq> Cancelled \<longrightarrow>
            dbGetTaskById (fst (confirm_broadcast_done e r s)) teamId taskId
              = Some (t\<lparr>status := Done, completed_at := Some (clock e), updated_at := clock e\<rparr>))
       \<and> (task_type t = Broadcast \<and> (status t = Done \<or> status t = Cancelled) \<longrightarrow>
            confirm_broadcast_done e r s
              = (s, [Ephemeral (channel_or_user t r) (Some (req_user r)) Already_closed]))
       \<and> (task_type t \<noteq> Broadcast \<longrightarrow> confirm_broadcast_done e r s = (s, []))"
proof (intro conjI impI)
  assume a: "task_type t = Broadcast \<and> status t \<noteq> Done \<and> status t \<noteq> Cancelled"
  let ?u = "t\<lparr>status := Done, completed_at := Some (clock e), updated_at := clock e\<rparr>"
  have row: "snd (dbUpdateStatus (clock e) s teamId taskId Done) = Some ?u"
    using dbUpdateStatus_row [OF assms(5), of "clock e" Done] by simp
  then obtain s1 where upd: "dbUpdateStatus (clock e) s teamId taskId Done = (s1, Some ?u)"
    by (cases "dbUpdateStatus (clock e) s teamId taskId Done") auto
  have got: "dbGetTaskById s1 teamId taskId = Some ?u"
    using dbUpdateStatus_get [of "clock e" s teamId taskId Done] upd by simp
  have "fst (confirm_broadcast_done e r s) = fst (refresh_task_card e s1 teamId ?u)"
    using assms a by (simp add: confirm_broadcast_done_def upd Let_def split: prod.splits)
  then show "dbGetTaskById (fst (confirm_broadcast_done e r s)) teamId taskId = Some ?u"
    using got refresh_task_card_frame [of e s1 teamId ?u]
    by (simp add: dbGetTaskById_def)
next
  assume "task_type t = Broadcast \<and> (status t = Done \<or> status t = Cancelled)"
  then show "confirm_broadcast_done e r s
               = (s, [Ephemeral (channel_or_user t r) (Some (req_user r)) Already_closed])"
    using assms by (auto simp: confirm_broadcast_done_def)
next
  assume "task_type t \<noteq> Broadcast"
  then show "confirm_broadcast_done e r s = (s, [])"
    using assms by (simp add: confirm_broadcast_done_def)
qed

text \<open>User \<open>UZ\<close>, neither the requester nor a target of \<open>t2\<close>, forces it to done.\<close>

theorem confirm_broadcast_done_any_user_witness:
  "dbGetTaskById (fst (confirm_broadcast_done env0 (press ''UZ'' ''t2'') store0)) ''T1'' ''t2''
     = Some (task_b1\<lparr>status := Done, completed_at := Some 7, updated_at := 7\<rparr>)"
proof -
  have h1: "js_or (val_team (press ''UZ'' ''t2'')) (req_team (press ''UZ'' ''t2'')) = Some ''T1''"
    by (simp add: press_def js_or_def truthy_def)
  have h2: "val_task (press ''UZ'' ''t2'') = Some ''t2''" by (simp add: press_def)
  have h3: "''T1'' \<noteq> []" by simp
  have h4: "''t2'' \<noteq> []" by simp
  have h5: "dbGetTaskById store0 ''T1'' ''t2'' = Some task_b1"
    by (simp add: dbGetTaskById_def store0_def is_task_def task_p1_def task_b1_def)
  show ?thesis
    using confirm_broadcast_done_any_user [OF h1 h2 h3 h4 h5, of env0]
    by (simp add: task_b1_def env0_def)
qed

subsection \<open>Creation\<close>

lemma set_foldl_set_add: "set (foldl set_add acc xs) = set acc \<union> set xs"
  by (induction xs arbitrary: acc) (auto simp: set_add_def)

lemma distinct_foldl_set_add: "distinct acc \<Longrightarrow> distinct (foldl set_add acc xs)"
  by (induction xs arbitrary: acc) (auto simp: set_add_def)

lemma set_expand_acc:
  "set (foldl (\<lambda>users gid. case usergroup_users d gid of
                               None \<Rightarrow> users
                             | Some us \<Rightarrow> foldl set_add users us) acc gs)
     = set acc \<union> (\<Union>g \<in> set gs. group_members d g)"
  by (induction gs arbitrary: acc)
     (auto simp: group_members_def set_foldl_set_add split: option.splits)

lemma set_target_list: "set (target_list d sub) = target_set d sub"
  by (simp add: target_list_def target_set_def expandTargetsFromGroups_def
        set_foldl_set_add set_expand_acc)

lemma distinct_target_list: "distinct (target_list d sub)"
  by (simp add: target_list_def distinct_foldl_set_add)

lemma length_target_list: "length (target_list d sub) = card (target_set d sub)"
  using distinct_card [OF distinct_target_list, of d sub] by (simp add: set_target_list)

lemma dbInsertTaskTargets_tasks: "tasks (dbInsertTaskTargets s a b us) = tasks s"
  by (simp add: dbInsertTaskTargets_def)

lemma task_modal_rejects:
  assumes "selected_users sub = []" and "selected_groups sub = []"
  shows "task_modal e d r sub s = (s, [Ack_errors], None)"
  using assms by (simp add: task_modal_def selected_groups_def)

lemma new_task_keys:
  "task_id (new_task e d r sub) = fresh_uuid e
   \<and> team_id (new_task e d r sub) = or_empty (js_or (val_team r) (req_team r))"
  by (simp add: new_task_def Let_def)

lemma new_task_counts_fix:
  "task_type (new_task e d r sub) = Broadcast \<Longrightarrow>
     (new_task e d r sub)\<lparr>completed_count := Some 0,
        total_count := coalesce (total_count (new_task e d r sub)) v,
        updated_at := clock e\<rparr> = new_task e d r sub"
  by (auto simp: new_task_def Let_def coalesce_def split: if_splits)

lemma store_created_get:
  assumes fresh: "dbGetTaskById s (or_empty (js_or (val_team r) (req_team r))) (fresh_uuid e) = None"
  shows "dbGetTaskById (store_created e d r sub s)
           (or_empty (js_or (val_team r) (req_team r))) (fresh_uuid e)
         = Some (new_task e d r sub)"
proof -
  let ?team = "or_empty (js_or (val_team r) (req_team r))"
  let ?row = "new_task e d r sub"
  let ?s1 = "s\<lparr>tasks := tasks s @ [?row]\<rparr>"
  let ?s2 = "dbInsertTaskTargets ?s1 ?team (fresh_uuid e) (target_list d sub)"
  have key: "is_task ?team (fresh_uuid e) ?row"
    by (simp add: is_task_def new_task_keys)
  have none: "find (is_task ?team (fresh_uuid e)) (tasks s) = None"
    using fresh by (simp add: dbGetTaskById_def)
  have g1: "dbGetTaskById ?s1 ?team (fresh_uuid e) = Some ?row"
    using find_append_new [OF none key] by (simp add: dbGetTaskById_def)
  have g2: "dbGetTaskById ?s2 ?team (fresh_uuid e) = Some ?row"
    using g1 by (simp add: dbGetTaskById_def dbInsertTaskTargets_tasks)
  show ?thesis
  proof (cases "task_type ?row = Broadcast")
    case True
    have "dbGetTaskById (fst (dbUpdateBroadcastCounts (clock e) ?s2 ?team (fresh_uuid e) 0
                         (Some (dbCountTargets ?s2 ?team (fresh_uuid e))))) ?team (fresh_uuid e)
          = Some ?row"
      using g2 key new_task_counts_fix [OF True]
      by (simp add: dbUpdateBroadcastCounts_def update_tasks_get)
    then show ?thesis using True
      by (simp add: store_created_def dbCreateTask_def Let_def)
  next
    case False
    then show ?thesis using g1 by (simp add: store_created_def dbCreateTask_def Let_def)
  qed
qed

lemma task_modal_tasks:
  assumes "selected_users sub \<noteq> [] \<or> selected_groups sub \<noteq> []"
  shows "tasks (fst (task_modal e d r sub s)) = tasks (store_created e d r sub s)"
proof -
  have "\<And>a b c th. tasks (fst (case upsertThreadCard e (store_created e d r sub s) a b c th of
                                 (s4, evs, x) \<Rightarrow> (s4, X evs, Y)))
         = tasks (store_created e d r sub s)" for X :: "event list \<Rightarrow> event list" and Y :: "task option"
    using upsertThreadCard_frame by (simp split: prod.splits) (metis fst_conv)
  then show ?thesis
    using assms by (auto simp: task_modal_def selected_groups_def Let_def)
qed

lemma task_modal_stored:
  assumes fresh: "dbGetTaskById s (or_empty (js_or (val_team r) (req_team r))) (fresh_uuid e) = None"
    and supplied: "selected_users sub \<noteq> [] \<or> selected_groups sub \<noteq> []"
  shows "dbGetTaskById (fst (task_modal e d r sub s))
           (or_empty (js_or (val_team r) (req_team r))) (fresh_uuid e)
         = Some (new_task e d r sub)"
  using store_created_get [OF fresh, of d sub] task_modal_tasks [OF supplied, of e d r s]
  by (simp add: dbGetTaskById_def)

lemma task_modal_created:
  assumes supplied: "selected_users sub \<noteq> [] \<or> selected_groups sub \<noteq> []"
  shows "snd (snd (task_modal e d r sub s)) = Some (created_object e d r sub s)"
  using assms by (simp add: task_modal_def selected_groups_def Let_def split: prod.splits)


text \<open>
  C7.  With an unused task id, the creation handler rejects a submission that selects
  no user and no group (it answers with the field errors and stores nothing);
  otherwise the stored task is personal if and only if the resolved target set (the
  selected users together with the members of the selected groups) has exactly one
  element and no group was selected, and is a broadcast task whose total count is the
  size of the target set in every other case.
\<close>

theorem task_modal_classification:
  assumes "dbGetTaskById s (or_empty (js_or (val_team r) (req_team r))) (fresh_uuid e) = None"
  shows "(selected_users sub = [] \<and> selected_groups sub = [] \<longrightarrow>
            task_modal e d r sub s = (s, [Ack_errors], None))
       \<and> (selected_users sub \<noteq> [] \<or> selected_groups sub \<noteq> [] \<longrightarrow>
            map_option task_type
              (dbGetTaskById (fst (task_modal e d r sub s))
                 (or_empty (js_or (val_team r) (req_team r))) (fresh_uuid e))
              = Some (if card (target_set d sub) = 1 \<and> selected_groups sub = []
                      then Personal else Broadcast)
          \<and> map_option total_count
              (dbGetTaskById (fst (task_modal e d r sub s))
                 (or_empty (js_or (val_team r) (req_team r))) (fresh_uuid e))
              = Some (if card (target_set d sub) = 1 \<and> selected_groups sub = []
                      then None else Some (int (card (target_set d sub)))))"
proof (intro conjI impI)
  assume "selected_users sub = [] \<and> selected_groups sub = []"
  then show "task_modal e d r sub s = (s, [Ack_errors], None)"
    by (simp add: task_modal_rejects)
next
  assume supplied: "selected_users sub \<noteq> [] \<or> selected_groups sub \<noteq> []"
  have ty: "task_type (new_task e d r sub)
              = (if card (target_set d sub) = 1 \<and> selected_groups sub = []
                 then Personal else Broadcast)"
    by (simp add: new_task_def Let_def length_target_list selected_groups_def)
  show "map_option task_type
          (dbGetTaskById (fst (task_modal e d r sub s))
             (or_empty (js_or (val_team r) (req_team r))) (fresh_uuid e))
        = Some (if card (target_set d sub) = 1 \<and> selected_groups sub = []
                then Personal else Broadcast)"
    using task_modal_stored [OF assms supplied, of d] ty by simp
next
  assume supplied: "selected_users sub \<noteq> [] \<or> selected_groups sub \<noteq> []"
  have tc: "total_count (new_task e d r sub)
              = (if card (target_set d sub) = 1 \<and> selected_groups sub = []
                 then None else Some (int (card (target_set d sub))))"
    by (simp add: new_task_def Let_def length_target_list selected_groups_def)
  show "map_option total_count
          (dbGetTaskById (fst (task_modal e d r sub s))
             (or_empty (js_or (val_team r) (req_team r))) (fresh_uuid e))
        = Some (if card (target_set d sub) = 1 \<and> selected_groups sub = []
                then None else Some (int (card (target_set d sub))))"
    using task_modal_stored [OF assms supplied, of d] tc by simp
qed

theorem task_modal_classification_witness:
  "map_option task_type
     (dbGetTaskById (fst (task_modal env0 dir0 (press ''UR'' []) sub0 store0)) ''T1'' ''u7'')
     = Some Broadcast
   \<and> map_option total_count
     (dbGetTaskById (fst (task_modal env0 dir0 (press ''UR'' []) sub0 store0)) ''T1'' ''u7'')
     = Some (Some 2)"
proof -
  have team: "or_empty (js_or (val_team (press ''UR'' [])) (req_team (press ''UR'' []))) = ''T1''"
    by (simp add: press_def js_or_def truthy_def or_empty_def)
  have h: "dbGetTaskById store0
             (or_empty (js_or (val_team (press ''UR'' [])) (req_team (press ''UR'' []))))
             (fresh_uuid env0) = None"
    by (simp add: team dbGetTaskById_def store0_def env0_def is_task_def task_p1_def task_b1_def)
  have groups: "selected_groups sub0 = [''G1'']"
    by (simp add: selected_groups_def sub0_def)
  have tset: "target_set dir0 sub0 = {''UA'', ''UB''}"
    by (auto simp: target_set_def sub0_def dir0_def group_members_def)
  have c: "card (target_set dir0 sub0) = 2"
    by (simp add: tset)
  show ?thesis
    using task_modal_classification [OF h, of sub0 dir0]
    by (simp add: team groups c env0_def)
qed

text \<open>
  C10.  Every task the creation handler stores has status in progress, for a personal
  and for a broadcast task alike and whatever status the submission carries; so has
  the object the handler goes on to notify and render with.  No task is created open.
\<close>

theorem task_modal_initial_status:
  assumes "dbGetTaskById s (or_empty (js_or (val_team r) (req_team r))) (fresh_uuid e) = None"
    and "selected_users sub \<noteq> [] \<or> selected_groups sub \<noteq> []"
  shows "map_option status
           (dbGetTaskById (fst (task_modal e d r sub s))
              (or_empty (js_or (val_team r) (req_team r))) (fresh_uuid e))
           = Some In_progress
       \<and> map_option status (snd (snd (task_modal e d r sub s))) = Some In_progress"
proof -
  have st: "status (new_task e d r sub) = In_progress"
    by (simp add: new_task_def Let_def)
  have co: "status (created_object e d r sub s) = In_progress"
    by (simp add: created_object_def dbCreateTask_def Let_def st)
  show ?thesis
    using task_modal_stored [OF assms, of d] task_modal_created [OF assms(2), of e d r s] st co
    by simp
qed

text \<open>The submission \<open>sub0\<close> asks for status open; the stored status is in progress.\<close>

theorem task_modal_initial_status_witness:
  "sub_status sub0 = Some Open
   \<and> map_option status
       (dbGetTaskById (fst (task_modal env0 dir0 (press ''UR'' []) sub0 store0)) ''T1'' ''u7'')
       = Some In_progress
   \<and> map_option status (snd (snd (task_modal env0 dir0 (press ''UR'' []) sub0 store0)))
       = Some In_progress"
proof -
  have team: "or_empty (js_or (val_team (press ''UR'' [])) (req_team (press ''UR'' []))) = ''T1''"
    by (simp add: press_def js_or_def truthy_def or_empty_def)
  have h1: "dbGetTaskById store0
             (or_empty (js_or (val_team (press ''UR'' [])) (req_team (press ''UR'' []))))
             (fresh_uuid env0) = None"
    by (simp add: team dbGetTaskById_def store0_def env0_def is_task_def task_p1_def task_b1_def)
  have h2: "selected_users sub0 \<noteq> [] \<or> selected_groups sub0 \<noteq> []"
    by (simp add: sub0_def)
  show ?thesis
    using task_modal_initial_status [OF h1 h2, of dir0]
    by (simp add: team env0_def sub0_def)
qed

subsection \<open>Recording a completion\<close>

lemma find_map_keys:
  assumes "\<And>t. team_id (g t) = team_id t" and "\<And>t. task_id (g t) = task_id t"
  shows "find (is_task a b) (map g xs) = map_option g (find (is_task a b) xs)"
  using assms by (induction xs) (auto simp: is_task_def)

lemma dbSetNotifiedIfNull_get:
  "dbGetTaskById (dbSetNotifiedIfNull c s a b) a' b'
     = map_option (\<lambda>t. if is_task a b t \<and> notified_at t = None
                         then t\<lparr>notified_at := Some c\<rparr> else t)
         (dbGetTaskById s a' b')"
  unfolding dbSetNotifiedIfNull_def dbGetTaskById_def
  by (simp add: find_map_keys)

lemma dbUpdateStatus_get_any:
  "dbGetTaskById (fst (dbUpdateStatus c s a b st)) a' b'
     = map_option (\<lambda>t. if is_task a b t
                         then t\<lparr>status := st,
                                completed_at := (if st = Done then Some c else completed_at t),
                                updated_at := c\<rparr>
                         else t)
         (dbGetTaskById s a' b')"
  by (simp add: dbUpdateStatus_def update_tasks_get)

lemma is_confirm_upsertThreadCard:
  "filter is_confirm (fst (snd (upsertThreadCard e s a c p th))) = []"
  by (simp add: upsertThreadCard_def post_card_def Let_def split: option.splits)

lemma is_confirm_refresh_task_card:
  "filter is_confirm (snd (refresh_task_card e s a t)) = []"
  using is_confirm_upsertThreadCard
  by (auto simp: refresh_task_card_def split: option.splits prod.splits)
     (metis fst_conv snd_conv)+

lemma all_done_step_not_reached:
  "\<not> all_complete s1 a b t \<Longrightarrow> all_done_step e s1 a b t = (s1, [])"
  by (simp add: all_done_step_def)

lemma all_done_step_frame:
  "task_targets (fst (all_done_step e s1 a b t)) = task_targets s1
   \<and> task_completions (fst (all_done_step e s1 a b t)) = task_completions s1
   \<and> thread_cards (fst (all_done_step e s1 a b t)) = thread_cards s1"
  using dbUpdateStatus_frame [of "clock e" s1 a b Waiting]
  by (simp add: all_done_step_def dbSetNotifiedIfNull_def Let_def split: option.splits)

lemma all_done_step_reached_get:
  assumes "all_complete s1 a b t" and "dbGetTaskById s1 a b = Some fresh"
  shows "dbGetTaskById (fst (all_done_step e s1 a b t)) a b
           = Some (if status fresh \<noteq> Waiting \<and> status fresh \<noteq> Done \<and> status fresh \<noteq> Cancelled
                   then fresh\<lparr>status := Waiting, updated_at := clock e,
                          notified_at := (case notified_at fresh of None \<Rightarrow> Some (clock e)
                                          | Some x \<Rightarrow> Some x)\<rparr>
                   else fresh\<lparr>notified_at := (case notified_at fresh of None \<Rightarrow> Some (clock e)
                                          | Some x \<Rightarrow> Some x)\<rparr>)"
  using assms dbGetTaskById_is_task [OF assms(2)]
  by (auto simp: all_done_step_def Let_def dbSetNotifiedIfNull_get dbUpdateStatus_get_any
           is_task_def split: option.splits)

lemma all_done_step_reached_events:
  assumes "all_complete s1 a b t" and "dbGetTaskById s1 a b = Some fresh"
  shows "snd (all_done_step e s1 a b t)
           = (if notified_at fresh = None
              then postRequesterConfirmDM a b (requester_user_id fresh) else [])"
  using assms by (simp add: all_done_step_def Let_def)


lemma refresh_task_card_eq:
  assumes "refresh_task_card e s a t = (s', evs)"
  shows "tasks s' = tasks s \<and> task_targets s' = task_targets s
         \<and> task_completions s' = task_completions s \<and> filter is_confirm evs = []"
  using refresh_task_card_frame [of e s a t] is_confirm_refresh_task_card [of e s a t] assms
  by simp

lemma dbUpsertCompletion_frame:
  "tasks (dbUpsertCompletion s a b u) = tasks s
   \<and> task_targets (dbUpsertCompletion s a b u) = task_targets s
   \<and> thread_cards (dbUpsertCompletion s a b u) = thread_cards s"
  by (simp add: dbUpsertCompletion_def)

lemma complete_task_broadcast:
  assumes "js_or (val_team r) (req_team r) = Some teamId" and "val_task r = Some taskId"
    and "teamId \<noteq> []" and "taskId \<noteq> []"
    and "dbGetTaskById s teamId taskId = Some t" and "task_type t = Broadcast"
  shows "complete_task e r s = complete_broadcast e r s teamId taskId t"
  using assms by (simp add: complete_task_def)

lemma complete_broadcast_not_target:
  assumes "\<not> dbIsUserTarget s teamId taskId (getUserIdFromBody r)"
  shows "complete_broadcast e r s teamId taskId t
           = (s, [Ephemeral (channel_or_user t r) (getUserIdFromBody r) Not_a_target])"
  using assms by (simp add: complete_broadcast_def Let_def)

lemma complete_broadcast_target:
  assumes "getUserIdFromBody r = Some u" and "dbIsUserTarget s teamId taskId (Some u)"
  shows "tasks (fst (complete_broadcast e r s teamId taskId t))
           = tasks (fst (all_done_step e (dbUpsertCompletion s teamId taskId u) teamId taskId t))
       \<and> task_completions (fst (complete_broadcast e r s teamId taskId t))
           = task_completions (dbUpsertCompletion s teamId taskId u)
       \<and> task_targets (fst (complete_broadcast e r s teamId taskId t)) = task_targets s
       \<and> filter is_confirm (snd (complete_broadcast e r s teamId taskId t))
           = filter is_confirm
               (snd (all_done_step e (dbUpsertCompletion s teamId taskId u) teamId taskId t))"
proof -
  let ?s1 = "dbUpsertCompletion s teamId taskId u"
  obtain s2 evs where ads: "all_done_step e ?s1 teamId taskId t = (s2, evs)"
    by (cases "all_done_step e ?s1 teamId taskId t")
  have fr: "task_targets s2 = task_targets s \<and> task_completions s2 = task_completions ?s1"
    using all_done_step_frame [of e ?s1 teamId taskId t] ads
    by (simp add: dbUpsertCompletion_frame)
  show ?thesis
    using assms ads fr
    by (auto simp: complete_broadcast_def Let_def split: option.splits prod.splits
             dest!: refresh_task_card_eq)
qed


lemma getUserIdFromBody_Some: "req_user r \<noteq> [] \<Longrightarrow> getUserIdFromBody r = Some (req_user r)"
  by (simp add: getUserIdFromBody_def)

lemma dbUpsertCompletion_get:
  "dbGetTaskById (dbUpsertCompletion s a b u) a' b' = dbGetTaskById s a' b'"
  by (simp add: dbGetTaskById_def dbUpsertCompletion_def)

lemma complete_task_reached:
  assumes "js_or (val_team r) (req_team r) = Some teamId" and "val_task r = Some taskId"
    and "teamId \<noteq> []" and "taskId \<noteq> []"
    and "dbGetTaskById s teamId taskId = Some t" and "task_type t = Broadcast"
    and "req_user r \<noteq> []" and "dbIsUserTarget s teamId taskId (Some (req_user r))"
    and "all_complete (dbUpsertCompletion s teamId taskId (req_user r)) teamId taskId t"
  shows "dbGetTaskById (fst (complete_task e r s)) teamId taskId
           = Some (if status t \<noteq> Waiting \<and> status t \<noteq> Done \<and> status t \<noteq> Cancelled
                   then t\<lparr>status := Waiting, updated_at := clock e,
                          notified_at := (case notified_at t of None \<Rightarrow> Some (clock e)
                                          | Some x \<Rightarrow> Some x)\<rparr>
                   else t\<lparr>notified_at := (case notified_at t of None \<Rightarrow> Some (clock e)
                                          | Some x \<Rightarrow> Some x)\<rparr>)
       \<and> filter is_confirm (snd (complete_task e r s))
           = (if notified_at t = None
              then postRequesterConfirmDM teamId taskId (requester_user_id t) else [])"
proof -
  let ?u = "req_user r"
  let ?s1 = "dbUpsertCompletion s teamId taskId ?u"
  have uid: "getUserIdFromBody r = Some ?u" using assms(7) by (rule getUserIdFromBody_Some)
  have g1: "dbGetTaskById ?s1 teamId taskId = Some t"
    using assms(5) by (simp add: dbUpsertCompletion_get)
  have ct: "complete_task e r s = complete_broadcast e r s teamId taskId t"
    by (rule complete_task_broadcast [OF assms(1-6)])
  have cb: "tasks (fst (complete_task e r s))
              = tasks (fst (all_done_step e ?s1 teamId taskId t))
            \<and> filter is_confirm (snd (complete_task e r s))
              = filter is_confirm (snd (all_done_step e ?s1 teamId taskId t))"
    using complete_broadcast_target [OF uid assms(8), of e t] ct by simp
  have ev: "filter is_confirm (snd (all_done_step e ?s1 teamId taskId t))
              = (if notified_at t = None
                 then postRequesterConfirmDM teamId taskId (requester_user_id t) else [])"
    by (simp add: all_done_step_reached_events [OF assms(9) g1] postRequesterConfirmDM_def)
  have "dbGetTaskById (fst (complete_task e r s)) teamId taskId
          = dbGetTaskById (fst (all_done_step e ?s1 teamId taskId t)) teamId taskId"
    using cb by (simp add: dbGetTaskById_def)
  then show ?thesis
    using all_done_step_reached_get [OF assms(9) g1, of e] cb ev by simp
qed

lemma complete_task_not_reached:
  assumes "js_or (val_team r) (req_team r) = Some teamId" and "val_task r = Some taskId"
    and "teamId \<noteq> []" and "taskId \<noteq> []"
    and "dbGetTaskById s teamId taskId = Some t" and "task_type t = Broadcast"
    and "req_user r \<noteq> []" and "dbIsUserTarget s teamId taskId (Some (req_user r))"
    and "\<not> all_complete (dbUpsertCompletion s teamId taskId (req_user r)) teamId taskId t"
  shows "tasks (fst (complete_task e r s)) = tasks s
       \<and> filter is_confirm (snd (complete_task e r s)) = []"
proof -
  let ?u = "req_user r"
  let ?s1 = "dbUpsertCompletion s teamId taskId ?u"
  have uid: "getUserIdFromBody r = Some ?u" using assms(7) by (rule getUserIdFromBody_Some)
  have ct: "complete_task e r s = complete_broadcast e r s teamId taskId t"
    by (rule complete_task_broadcast [OF assms(1-6)])
  show ?thesis
    using complete_broadcast_target [OF uid assms(8), of e t] ct
      all_done_step_not_reached [OF assms(9), of e]
    by (simp add: dbUpsertCompletion_frame)
qed

lemma complete_task_completions:
  assumes "js_or (val_team r) (req_team r) = Some teamId" and "val_task r = Some taskId"
    and "teamId \<noteq> []" and "taskId \<noteq> []"
    and "dbGetTaskById s teamId taskId = Some t" and "task_type t = Broadcast"
    and "req_user r \<noteq> []" and "dbIsUserTarget s teamId taskId (Some (req_user r))"
  shows "task_completions (fst (complete_task e r s))
           = insert_member \<lparr>row_task_id = taskId, row_team_id = teamId, row_user_id = req_user r\<rparr>
               (task_completions s)
       \<and> task_targets (fst (complete_task e r s)) = task_targets s"
proof -
  have uid: "getUserIdFromBody r = Some (req_user r)"
    using assms(7) by (rule getUserIdFromBody_Some)
  have ct: "complete_task e r s = complete_broadcast e r s teamId taskId t"
    by (rule complete_task_broadcast [OF assms(1-6)])
  show ?thesis
    using complete_broadcast_target [OF uid assms(8), of e t] ct
    by (simp add: dbUpsertCompletion_def)
qed

subsection \<open>Completing twice\<close>

lemma insert_member_idem: "insert_member r (insert_member r rows) = insert_member r rows"
proof (cases "find (same_member r) rows")
  case None
  have "same_member r r" by (simp add: same_member_def)
  from find_append_new [OF None this] None show ?thesis
    by (simp add: insert_member_def)
next
  case (Some x)
  then show ?thesis by (simp add: insert_member_def)
qed

lemma distinct_key_filter_le1:
  "distinct (map f xs) \<Longrightarrow> length (filter (\<lambda>x. f x = k) xs) \<le> 1"
  by (induction xs) (auto simp: filter_empty_conv image_iff)

lemma find_Some_filter_ne: "find P xs = Some x \<Longrightarrow> filter P xs \<noteq> []"
  by (induction xs) (auto split: if_splits)

lemma same_member_key:
  "same_member \<lparr>row_task_id = b, row_team_id = a, row_user_id = u\<rparr>
     = (\<lambda>x. completion_key x = (b, u))"
  by (auto simp: same_member_def completion_key_def fun_eq_iff)

lemma insert_member_distinct:
  assumes "distinct (map completion_key rows)"
  shows "distinct (map completion_key
            (insert_member \<lparr>row_task_id = b, row_team_id = a, row_user_id = u\<rparr> rows))"
proof (cases "find (same_member \<lparr>row_task_id = b, row_team_id = a, row_user_id = u\<rparr>) rows")
  case None
  then have "filter (\<lambda>x. completion_key x = (b, u)) rows = []"
    by (simp add: same_member_key filter_none_of_find)
  then have "(b, u) \<notin> completion_key ` set rows"
    by (auto simp: filter_empty_conv)
  with None assms show ?thesis
    by (simp add: insert_member_def completion_key_def)
next
  case (Some x)
  with assms show ?thesis by (simp add: insert_member_def)
qed

lemma insert_member_one_row:
  assumes "distinct (map completion_key rows)"
  shows "length (filter (\<lambda>x. completion_key x = (b, u))
            (insert_member \<lparr>row_task_id = b, row_team_id = a, row_user_id = u\<rparr> rows)) = 1"
proof -
  let ?r = "\<lparr>row_task_id = b, row_team_id = a, row_user_id = u\<rparr>"
  have le: "length (filter (\<lambda>x. completion_key x = (b, u)) (insert_member ?r rows)) \<le> 1"
    by (rule distinct_key_filter_le1 [OF insert_member_distinct [OF assms]])
  have "filter (\<lambda>x. completion_key x = (b, u)) (insert_member ?r rows) \<noteq> []"
  proof (cases "find (same_member ?r) rows")
    case None
    then show ?thesis by (simp add: insert_member_def completion_key_def)
  next
    case (Some x)
    then show ?thesis
      using find_Some_filter_ne [of "same_member ?r" rows x]
      by (simp add: insert_member_def same_member_key)
  qed
  then have "length (filter (\<lambda>x. completion_key x = (b, u)) (insert_member ?r rows)) \<noteq> 0"
    by simp
  with le show ?thesis by linarith
qed

lemma all_complete_cong:
  assumes "task_completions sa = task_completions sb" and "task_targets sa = task_targets sb"
    and "total_count ta = total_count tb"
  shows "all_complete sa a b ta = all_complete sb a b tb"
  using assms
  by (auto simp: all_complete_def total_of_def dbCountCompletions_def dbCountTargets_def
           split: option.splits)

lemma dbIsUserTarget_cong:
  "task_targets sa = task_targets sb \<Longrightarrow> dbIsUserTarget sa a b u = dbIsUserTarget sb a b u"
  by (simp add: dbIsUserTarget_def split: option.splits)

text \<open>
  C6.  Let a target of a broadcast task press "complete" twice, on a store whose
  completion rows respect the unique constraint on (task_id, user_id).  The second
  request leaves the completion rows as the first one left them, with exactly one row
  for this task and user; the completion count is the same after both; and the second
  request sends no "everyone has completed" message to the requester.
\<close>

theorem complete_task_twice:
  assumes "js_or (val_team r) (req_team r) = Some teamId" and "val_task r = Some taskId"
    and "teamId \<noteq> []" and "taskId \<noteq> []"
    and "dbGetTaskById s teamId taskId = Some t" and "task_type t = Broadcast"
    and "req_user r \<noteq> []" and "dbIsUserTarget s teamId taskId (Some (req_user r))"
    and "distinct (map completion_key (task_completions s))"
  shows "task_completions (fst (complete_task e2 r (fst (complete_task e1 r s))))
           = task_completions (fst (complete_task e1 r s))
       \<and> length (filter (\<lambda>x. completion_key x = (taskId, req_user r))
            (task_completions (fst (complete_task e2 r (fst (complete_task e1 r s)))))) = 1
       \<and> dbCountCompletions (fst (complete_task e2 r (fst (complete_task e1 r s)))) teamId taskId
           = dbCountCompletions (fst (complete_task e1 r s)) teamId taskId
       \<and> filter is_confirm (snd (complete_task e2 r (fst (complete_task e1 r s)))) = []"
proof -
  let ?u = "req_user r"
  let ?row = "\<lparr>row_task_id = taskId, row_team_id = teamId, row_user_id = ?u\<rparr>"
  let ?sa = "fst (complete_task e1 r s)"
  let ?sb = "fst (complete_task e2 r ?sa)"
  let ?c1 = "dbUpsertCompletion s teamId taskId ?u"
  let ?c2 = "dbUpsertCompletion ?sa teamId taskId ?u"
  have A: "task_completions ?sa = insert_member ?row (task_completions s)
           \<and> task_targets ?sa = task_targets s"
    by (rule complete_task_completions [OF assms(1-8)])
  have ex: "\<exists>t'. dbGetTaskById ?sa teamId taskId = Some t' \<and> task_type t' = Broadcast
                \<and> total_count t' = total_count t
                \<and> (all_complete ?c1 teamId taskId t \<longrightarrow> notified_at t' \<noteq> None)"
  proof (cases "all_complete ?c1 teamId taskId t")
    case True
    let ?n = "case notified_at t of None \<Rightarrow> Some (clock e1) | Some x \<Rightarrow> Some x"
    let ?t' = "if status t \<noteq> Waiting \<and> status t \<noteq> Done \<and> status t \<noteq> Cancelled
               then t\<lparr>status := Waiting, updated_at := clock e1, notified_at := ?n\<rparr>
               else t\<lparr>notified_at := ?n\<rparr>"
    have g: "dbGetTaskById ?sa teamId taskId = Some ?t'"
      using complete_task_reached [OF assms(1-8) True, of e1] by simp
    have p: "task_type ?t' = Broadcast \<and> total_count ?t' = total_count t \<and> notified_at ?t' \<noteq> None"
      using assms(6) by (simp split: option.splits)
    from g p show ?thesis by blast
  next
    case False
    have "dbGetTaskById ?sa teamId taskId = Some t"
      using complete_task_not_reached [OF assms(1-8) False, of e1] assms(5)
      by (simp add: dbGetTaskById_def)
    with False assms(6) show ?thesis by simp
  qed
  then obtain t' where t': "dbGetTaskById ?sa teamId taskId = Some t'"
      and ty: "task_type t' = Broadcast" and tc: "total_count t' = total_count t"
      and nt: "all_complete ?c1 teamId taskId t \<longrightarrow> notified_at t' \<noteq> None"
    by blast
  have tg: "dbIsUserTarget ?sa teamId taskId (Some ?u)"
    using assms(8) A dbIsUserTarget_cong [of ?sa s] by simp
  have B: "task_completions ?sb = insert_member ?row (task_completions ?sa)
           \<and> task_targets ?sb = task_targets ?sa"
    by (rule complete_task_completions [OF assms(1-4) t' ty assms(7) tg])
  have same: "task_completions ?sb = task_completions ?sa"
    using A B by (simp add: insert_member_idem)
  have one: "length (filter (\<lambda>x. completion_key x = (taskId, ?u)) (task_completions ?sb)) = 1"
    using same A insert_member_one_row [OF assms(9), of taskId ?u teamId] by simp
  have cnt: "dbCountCompletions ?sb teamId taskId = dbCountCompletions ?sa teamId taskId"
    using same by (simp add: dbCountCompletions_def)
  have ac: "all_complete ?c2 teamId taskId t' = all_complete ?c1 teamId taskId t"
    by (rule all_complete_cong) (simp_all add: dbUpsertCompletion_def A insert_member_idem tc)
  have quiet: "filter is_confirm (snd (complete_task e2 r ?sa)) = []"
  proof (cases "all_complete ?c1 teamId taskId t")
    case True
    then have r2: "all_complete ?c2 teamId taskId t'" using ac by simp
    from True nt have "notified_at t' \<noteq> None" by simp
    with complete_task_reached [OF assms(1-4) t' ty assms(7) tg r2, of e2] show ?thesis
      by simp
  next
    case False
    then have r2: "\<not> all_complete ?c2 teamId taskId t'" using ac by simp
    from complete_task_not_reached [OF assms(1-4) t' ty assms(7) tg r2, of e2] show ?thesis
      by simp
  qed
  show ?thesis using same one cnt quiet by simp
qed

theorem complete_task_twice_witness:
  "task_completions
     (fst (complete_task env0 (press ''UA'' ''t2'')
             (fst (complete_task env0 (press ''UA'' ''t2'') store0))))
     = [target_of_b1 ''UA'']
   \<and> dbCountCompletions
        (fst (complete_task env0 (press ''UA'' ''t2'')
                (fst (complete_task env0 (press ''UA'' ''t2'') store0)))) ''T1'' ''t2'' = 1
   \<and> filter is_confirm
        (snd (complete_task env0 (press ''UA'' ''t2'')
                (fst (complete_task env0 (press ''UA'' ''t2'') store0)))) = []"
proof -
  have h1: "js_or (val_team (press ''UA'' ''t2'')) (req_team (press ''UA'' ''t2'')) = Some ''T1''"
    by (simp add: press_def js_or_def truthy_def)
  have h2: "val_task (press ''UA'' ''t2'') = Some ''t2''" by (simp add: press_def)
  have h3: "''T1'' \<noteq> []" by simp
  have h4: "''t2'' \<noteq> []" by simp
  have h5: "dbGetTaskById store0 ''T1'' ''t2'' = Some task_b1"
    by (simp add: dbGetTaskById_def store0_def is_task_def task_p1_def task_b1_def)
  have h6: "task_type task_b1 = Broadcast" by (simp add: task_b1_def)
  have h7: "req_user (press ''UA'' ''t2'') \<noteq> []" by (simp add: press_def)
  have h8: "dbIsUserTarget store0 ''T1'' ''t2'' (Some (req_user (press ''UA'' ''t2'')))"
    by (simp add: dbIsUserTarget_def store0_def press_def target_of_b1_def is_member_def)
  have h9: "distinct (map completion_key (task_completions store0))"
    by (simp add: store0_def)
  have first: "task_completions (fst (complete_task env0 (press ''UA'' ''t2'') store0))
                 = [target_of_b1 ''UA'']"
    using complete_task_completions [OF h1 h2 h3 h4 h5 h6 h7 h8, of env0]
    by (simp add: insert_member_def store0_def press_def target_of_b1_def)
  show ?thesis
    using complete_task_twice [OF h1 h2 h3 h4 h5 h6 h7 h8 h9, of env0 env0] first
    by (simp add: dbCountCompletions_def is_member_def target_of_b1_def)
qed

subsection \<open>Two final completions in flight\<close>

lemma flight_run_returned: "fl_pc f = Returned \<Longrightarrow> flight_run n f s = (f, s, [])"
  by (induction n) (simp_all add: flight_step_def)

lemma flight_run_refresh:
  assumes "fl_pc f = Refresh_card"
  shows "flight_run (Suc n) f s
           = (f\<lparr>fl_pc := Returned\<rparr>,
              refresh_after_completion (fl_env f) s (fl_team f) (fl_task_id f) (fl_task f))"
  using assms
  by (simp add: flight_step_def split_beta flight_run_returned)

lemma complete_broadcast_steps:
  assumes "getUserIdFromBody r = Some u" and "dbIsUserTarget s teamId taskId (Some u)"
  shows "complete_broadcast e r s teamId taskId t
           = (case all_done_step e (dbUpsertCompletion s teamId taskId u) teamId taskId t of
                (s2, evs) \<Rightarrow>
                  (case refresh_after_completion e s2 teamId taskId t of
                     (s3, evs3) \<Rightarrow> (s3, evs @ evs3)))"
  using assms
  by (simp add: complete_broadcast_def refresh_after_completion_def Let_def split_beta
           split: option.splits)

text \<open>
  A flight that runs alone from the insert to its return does what the broadcast
  branch of \<open>complete_task\<close> does for a target: same store, same Slack calls.
\<close>

lemma flight_alone:
  assumes "getUserIdFromBody r = Some u" and "dbIsUserTarget s teamId taskId (Some u)"
  shows "snd (flight_run 8 (start_flight e teamId taskId t u) s)
           = complete_broadcast e r s teamId taskId t
       \<and> fl_pc (fst (flight_run 8 (start_flight e teamId taskId t u) s)) = Returned"
proof -
  let ?s1 = "dbUpsertCompletion s teamId taskId u"
  let ?f0 = "start_flight e teamId taskId t u"
  define g where "g pc fr = ?f0\<lparr>fl_total := total_of ?s1 teamId taskId t,
                      fl_done := dbCountCompletions ?s1 teamId taskId,
                      fl_fresh := fr, fl_pc := pc\<rparr>" for pc fr
  have fields: "fl_pc (g pc fr) = pc" "fl_env (g pc fr) = e" "fl_team (g pc fr) = teamId"
    "fl_task_id (g pc fr) = taskId" "fl_task (g pc fr) = t" "fl_fresh (g pc fr) = fr"
    "(g pc fr)\<lparr>fl_pc := pc'\<rparr> = g pc' fr" for pc pc' fr
    by (simp_all add: g_def start_flight_def)
  have eight: "(8::nat) = Suc (Suc (Suc (Suc (Suc (Suc (Suc (Suc 0)))))))" by simp
  have three: "flight_run (Suc (Suc (Suc n))) ?f0 s
                 = flight_run n (g (if all_complete ?s1 teamId taskId t
                                    then Read_fresh else Refresh_card) None) ?s1" for n
    by (simp add: g_def flight_step_def start_flight_def all_complete_def Let_def split_beta)
  have fresh: "flight_run (Suc n) (g Read_fresh None) ?s1
                 = flight_run n (g Update_status (dbGetTaskById ?s1 teamId taskId)) ?s1" for n
    by (simp add: g_def flight_step_def start_flight_def split_beta)
  note cb = complete_broadcast_steps [OF assms, of e t]
  note [simp del] = flight_run.simps
  show ?thesis
  proof (cases "all_complete ?s1 teamId taskId t")
    case False
    have "flight_run 8 ?f0 s
            = (g Returned None, refresh_after_completion e ?s1 teamId taskId t)"
      unfolding eight three using False
      by (simp add: flight_run_refresh fields)
    then show ?thesis using False cb by (simp add: all_done_step_def split_beta fields)
  next
    case True
    show ?thesis
    proof (cases "dbGetTaskById ?s1 teamId taskId")
      case None
      have one: "flight_run (Suc n) (g Update_status None) ?s1
                   = flight_run n (g Refresh_card None) ?s1" for n
        by (simp add: g_def flight_step_def start_flight_def split_beta flight_run.simps)
      have "flight_run 8 ?f0 s
              = (g Returned None, refresh_after_completion e ?s1 teamId taskId t)"
        unfolding eight three using True None
        by (simp add: fresh one flight_run_refresh fields)
      then show ?thesis using True None cb by (simp add: all_done_step_def split_beta fields)
    next
      case (Some fr)
      let ?s2 = "if status fr \<noteq> Waiting \<and> status fr \<noteq> Done \<and> status fr \<noteq> Cancelled
                 then fst (dbUpdateStatus (clock e) ?s1 teamId taskId Waiting) else ?s1"
      have one: "flight_run (Suc n) (g Update_status (Some fr)) ?s1
                   = flight_run n (g Update_notified (Some fr)) ?s2" for n
        by (simp add: g_def flight_step_def start_flight_def split_beta flight_run.simps)
      show ?thesis
      proof (cases "notified_at fr")
        case None
        let ?s3 = "dbSetNotifiedIfNull (clock e) ?s2 teamId taskId"
        have more: "flight_run (Suc (Suc n)) (g Update_notified (Some fr)) ?s2
                = (case flight_run n (g Refresh_card (Some fr)) ?s3 of
                     (f2, s2, evs2) \<Rightarrow>
                       (f2, s2, postRequesterConfirmDM teamId taskId (requester_user_id fr) @ evs2))"
          for n
          using None
          by (simp add: g_def flight_step_def start_flight_def split_beta flight_run.simps)
        have "flight_run 8 ?f0 s
                = (g Returned (Some fr),
                   fst (refresh_after_completion e ?s3 teamId taskId t),
                   postRequesterConfirmDM teamId taskId (requester_user_id fr)
                     @ snd (refresh_after_completion e ?s3 teamId taskId t))"
          unfolding eight three using True Some
          by (simp add: fresh one more flight_run_refresh fields split_beta)
        then show ?thesis
          using True Some None cb by (simp add: all_done_step_def split_beta Let_def fields)
      next
        case (Some n')
        have more: "flight_run (Suc n) (g Update_notified (Some fr)) ?s2
                = flight_run n (g Refresh_card (Some fr)) ?s2" for n
          using Some
          by (simp add: g_def flight_step_def start_flight_def split_beta flight_run.simps)
        have "flight_run 8 ?f0 s
                = (g Returned (Some fr), refresh_after_completion e ?s2 teamId taskId t)"
          unfolding eight three using True \<open>dbGetTaskById ?s1 teamId taskId = Some fr\<close>
          by (simp add: fresh one more flight_run_refresh fields split_beta)
        then show ?thesis
          using True \<open>dbGetTaskById ?s1 teamId taskId = Some fr\<close> Some cb
          by (simp add: all_done_step_def split_beta Let_def fields)
      qed
    qed
  qed
qed

text \<open>
  C1.  The claim fails on the code when two final completions are in flight together.
  In \<open>store1\<close> the broadcast task \<open>t2\<close> has three targets, one completion (\<open>UA\<close>) and a
  null \<open>notified_at\<close>.  The targets \<open>UB\<close> and \<open>UC\<close> press "complete" and their
  requests advance in turn, one statement each.  Both count three completions out of
  three, both read \<open>fresh\<close> with a null \<open>notified_at\<close>, and both send the "everyone has
  completed" message to the requester \<open>UR\<close>: the conditional update of the second
  request changes no row, but the handler does not read its result, although its
  comment says the requester is notified once only.  The status ends waiting and
  \<open>notified_at\<close> holds the clock of the first request.
\<close>

theorem complete_task_two_final_completions:
  "dbGetTaskById store1 ''T1'' ''t2'' = Some task_b1
   \<and> notified_at task_b1 = None
   \<and> dbIsUserTarget store1 ''T1'' ''t2'' (Some ''UB'')
   \<and> dbIsUserTarget store1 ''T1'' ''t2'' (Some ''UC'')
   \<and> dbCountCompletions store1 ''T1'' ''t2'' = 1
   \<and> interleave schedule0
         (start_flight env0 ''T1'' ''t2'' task_b1 ''UB'')
         (start_flight env1 ''T1'' ''t2'' task_b1 ''UC'') store1
       = (\<lparr>fl_env = env0, fl_team = ''T1'', fl_task_id = ''t2'', fl_user = ''UB'',
            fl_task = task_b1, fl_total = 3, fl_done = 3, fl_fresh = Some task_b1,
            fl_pc = Returned\<rparr>,
          \<lparr>fl_env = env1, fl_team = ''T1'', fl_task_id = ''t2'', fl_user = ''UC'',
            fl_task = task_b1, fl_total = 3, fl_done = 3, fl_fresh = Some task_b1,
            fl_pc = Returned\<rparr>,
          \<lparr>tasks = [task_p1, task_b1\<lparr>status := Waiting, updated_at := 8, notified_at := Some 7\<rparr>],
            task_targets = [target_of_b1 ''UA'', target_of_b1 ''UB'', target_of_b1 ''UC''],
            task_completions = [target_of_b1 ''UA'', target_of_b1 ''UB'', target_of_b1 ''UC''],
            thread_cards = [new_card env0 ''T1'' ''C1'' ''100.0'' ''200.7'']\<rparr>,
          [Requester_confirm_dm ''T1'' ''t2'' ''UR'', Requester_confirm_dm ''T1'' ''t2'' ''UR'',
           Card_post ''C1'' ''100.0'', Card_update ''C1'' ''200.7''])"
  by (simp add: schedule0_def start_flight_def flight_step_def store1_def store0_def
        task_b1_def task_p1_def target_of_b1_def env0_def env1_def
        dbUpsertCompletion_def insert_member_def same_member_def total_of_def
        dbCountCompletions_def is_member_def dbGetTaskById_def is_task_def
        dbUpdateStatus_def update_tasks_def dbSetNotifiedIfNull_def
        postRequesterConfirmDM_def refresh_after_completion_def truthy_def
        refresh_task_card_def startsWithD_def upsertThreadCard_def post_card_def
        dbGetThreadCard_def dbUpsertThreadCard_def is_card_def js_or_def Let_def
        dbIsUserTarget_def new_card_def)

text \<open>The same two requests one after the other: one message only.\<close>

lemma complete_task_one_after_the_other:
  "filter is_confirm
     (snd (snd (snd (interleave schedule1
        (start_flight env0 ''T1'' ''t2'' task_b1 ''UB'')
        (start_flight env1 ''T1'' ''t2'' task_b1 ''UC'') store1))))
   = [Requester_confirm_dm ''T1'' ''t2'' ''UR'']"
  by (simp add: schedule1_def start_flight_def flight_step_def store1_def store0_def
        task_b1_def task_p1_def target_of_b1_def env0_def env1_def
        dbUpsertCompletion_def insert_member_def same_member_def total_of_def
        dbCountCompletions_def is_member_def dbGetTaskById_def is_task_def
        dbUpdateStatus_def update_tasks_def dbSetNotifiedIfNull_def
        postRequesterConfirmDM_def refresh_after_completion_def truthy_def
        refresh_task_card_def startsWithD_def upsertThreadCard_def post_card_def
        dbGetThreadCard_def dbUpsertThreadCard_def is_card_def js_or_def Let_def
        dbIsUserTarget_def new_card_def)


subsection \<open>Terminal tasks and authorization\<close>

lemma edit_task_modal_applied:
  assumes "js_or (val_team r) (req_team r) = Some teamId" and "val_task r = Some taskId"
    and "dbGetTaskById s teamId taskId = Some before"
    and "canEditTask before (getUserIdFromBody r)" and "nc \<noteq> []"
    and "task_type before = Broadcast \<or> truthy na"
  shows "map_option description
           (dbGetTaskById (fst (edit_task_modal e d r na nd nc s)) teamId taskId) = Some nc
       \<and> map_option due_date
           (dbGetTaskById (fst (edit_task_modal e d r na nd nc s)) teamId taskId)
           = Some (js_or nd None)
       \<and> map_option status
           (dbGetTaskById (fst (edit_task_modal e d r na nd nc s)) teamId taskId)
           = Some (status before)"
proof -
  let ?p = "if task_type before \<noteq> Broadcast
            then \<lparr>patch_assignee_id = to_field na,
                  patch_assignee_dept =
                    to_field (case na of None \<Rightarrow> None | Some a \<Rightarrow> resolve_dept d a),
                  patch_due_date = to_field (js_or nd None),
                  patch_description = Val nc\<rparr>
            else \<lparr>patch_assignee_id = Null, patch_assignee_dept = Null,
                  patch_due_date = to_field (js_or nd None),
                  patch_description = Val nc\<rparr>"
  let ?res = "dbUpdateTaskContent (clock e) s teamId taskId ?p"
  from dbUpdateTaskContent_row [OF assms(3), of "clock e" ?p]
  obtain u where u: "snd ?res = Some u" and ud: "description u = nc"
    and udd: "due_date u = js_or nd None" and us: "status u = status before"
    by (cases "js_or nd None") (auto simp: to_field_def)
  have "fst (edit_task_modal e d r na nd nc s) = fst (refresh_task_card e (fst ?res) teamId u)"
    using assms u by (auto simp: edit_task_modal_def split_beta Let_def)
  then have "dbGetTaskById (fst (edit_task_modal e d r na nd nc s)) teamId taskId
               = dbGetTaskById (fst ?res) teamId taskId"
    using refresh_task_card_frame [of e "fst ?res" teamId u] by (simp add: dbGetTaskById_def)
  also have "\<dots> = Some u"
    using u by (simp add: dbUpdateTaskContent_def update_tasks_snd)
  finally show ?thesis using ud udd us by simp
qed

lemma complete_task_keeps_terminal_status:
  assumes "js_or (val_team r) (req_team r) = Some teamId" and "val_task r = Some taskId"
    and "teamId \<noteq> []" and "taskId \<noteq> []"
    and "dbGetTaskById s teamId taskId = Some t" and "task_type t = Broadcast"
    and "status t = Done \<or> status t = Cancelled"
  shows "map_option status (dbGetTaskById (fst (complete_task e r s)) teamId taskId)
           = Some (status t)"
proof (cases "dbIsUserTarget s teamId taskId (getUserIdFromBody r)")
  case False
  have "complete_task e r s = complete_broadcast e r s teamId taskId t"
    by (rule complete_task_broadcast [OF assms(1-6)])
  with False assms(5) show ?thesis by (simp add: complete_broadcast_not_target)
next
  case True
  then have ne: "req_user r \<noteq> []"
    by (auto simp: getUserIdFromBody_def dbIsUserTarget_def split: if_splits)
  with True have tg: "dbIsUserTarget s teamId taskId (Some (req_user r))"
    by (simp add: getUserIdFromBody_def)
  show ?thesis
  proof (cases "all_complete (dbUpsertCompletion s teamId taskId (req_user r)) teamId taskId t")
    case True
    from complete_task_reached [OF assms(1-6) ne tg True, of e] assms(7) show ?thesis
      by auto
  next
    case False
    from complete_task_not_reached [OF assms(1-6) ne tg False, of e] assms(5) show ?thesis
      by (simp add: dbGetTaskById_def)
  qed
qed

text \<open>
  C2 (as amended).  For a task whose status is done or cancelled:
  \<open>confirm_broadcast_done\<close> on a broadcast task answers "already done or withdrawn"
  and changes nothing; \<open>complete_task\<close> on a broadcast task never changes the status;
  and the edit handler, for an actor allowed to edit, writes the new content and due
  date and leaves the status as it is.
\<close>

theorem terminal_tasks:
  assumes "js_or (val_team r) (req_team r) = Some teamId" and "val_task r = Some taskId"
    and "teamId \<noteq> []" and "taskId \<noteq> []"
    and "dbGetTaskById s teamId taskId = Some t"
    and "status t = Done \<or> status t = Cancelled"
  shows "(task_type t = Broadcast \<longrightarrow>
            confirm_broadcast_done e r s
              = (s, [Ephemeral (channel_or_user t r) (Some (req_user r)) Already_closed]))
       \<and> (task_type t = Broadcast \<longrightarrow>
            map_option status (dbGetTaskById (fst (complete_task e r s)) teamId taskId)
              = Some (status t))
       \<and> (canEditTask t (getUserIdFromBody r) \<and> nc \<noteq> []
            \<and> (task_type t = Broadcast \<or> truthy na) \<longrightarrow>
            map_option description
              (dbGetTaskById (fst (edit_task_modal e d r na nd nc s)) teamId taskId) = Some nc
          \<and> map_option due_date
              (dbGetTaskById (fst (edit_task_modal e d r na nd nc s)) teamId taskId)
              = Some (js_or nd None)
          \<and> map_option status
              (dbGetTaskById (fst (edit_task_modal e d r na nd nc s)) teamId taskId)
              = Some (status t))"
proof (intro conjI impI)
  assume "task_type t = Broadcast"
  then show "confirm_broadcast_done e r s
               = (s, [Ephemeral (channel_or_user t r) (Some (req_user r)) Already_closed])"
    using assms by (auto simp: confirm_broadcast_done_def)
next
  assume "task_type t = Broadcast"
  then show "map_option status (dbGetTaskById (fst (complete_task e r s)) teamId taskId)
               = Some (status t)"
    using complete_task_keeps_terminal_status [OF assms(1-5) _ assms(6)] by simp
next
  assume a: "canEditTask t (getUserIdFromBody r) \<and> nc \<noteq> []
               \<and> (task_type t = Broadcast \<or> truthy na)"
  note E = edit_task_modal_applied [OF assms(1,2,5), of nc na e d nd]
  show "map_option description
          (dbGetTaskById (fst (edit_task_modal e d r na nd nc s)) teamId taskId) = Some nc"
    using E a by simp
  show "map_option due_date
          (dbGetTaskById (fst (edit_task_modal e d r na nd nc s)) teamId taskId)
          = Some (js_or nd None)"
    using E a by simp
  show "map_option status
          (dbGetTaskById (fst (edit_task_modal e d r na nd nc s)) teamId taskId)
          = Some (status t)"
    using E a by simp
qed


text \<open>On the cancelled broadcast task of \<open>store4\<close>, for user \<open>UA\<close>, one of its targets.\<close>

theorem terminal_tasks_witness:
  "confirm_broadcast_done env0 (press ''UA'' ''t2'') store4
     = (store4, [Ephemeral ''C1'' (Some ''UA'') Already_closed])
   \<and> map_option status
        (dbGetTaskById (fst (complete_task env0 (press ''UA'' ''t2'') store4)) ''T1'' ''t2'')
       = Some Cancelled"
proof -
  let ?t = "task_b1\<lparr>status := Cancelled, cancelled_at := Some 5,
              cancelled_by_user_id := Some ''UR''\<rparr>"
  have h1: "js_or (val_team (press ''UA'' ''t2'')) (req_team (press ''UA'' ''t2'')) = Some ''T1''"
    by (simp add: press_def js_or_def truthy_def)
  have h2: "val_task (press ''UA'' ''t2'') = Some ''t2''" by (simp add: press_def)
  have h3: "''T1'' \<noteq> []" by simp
  have h4: "''t2'' \<noteq> []" by simp
  have h5: "dbGetTaskById store4 ''T1'' ''t2'' = Some ?t"
    by (simp add: dbGetTaskById_def store4_def store0_def is_task_def task_p1_def task_b1_def)
  have h6: "status ?t = Done \<or> status ?t = Cancelled" by simp
  show ?thesis
    using terminal_tasks [OF h1 h2 h3 h4 h5 h6, where e = env0]
    by (simp add: task_b1_def channel_or_user_def press_def)
qed

text \<open>
  The claim as stated fails: the requester \<open>UR\<close> edits the personal task \<open>t1\<close> of
  \<open>store3\<close>, which is done.  The edit is not rejected: the description and the due date
  are rewritten, and the handler sends nothing but the answer to the submission.
\<close>

theorem edit_done_task_counterexample:
  "map_option status (dbGetTaskById store3 ''T1'' ''t1'') = Some Done
   \<and> map_option description (dbGetTaskById store3 ''T1'' ''t1'') = Some ''write the plan''
   \<and> map_option due_date (dbGetTaskById store3 ''T1'' ''t1'') = Some (Some ''2026-04-25'')
   \<and> edit_task_modal env0 dir0 (press ''UR'' ''t1'') (Some ''UX'') None
         ''write the plan again'' store3
       = (store3\<lparr>tasks :=
            [task_p1\<lparr>status := Done, completed_at := Some 5,
               description := ''write the plan again'', due_date := None, updated_at := 7\<rparr>,
             task_b1]\<rparr>,
          [Ack_ok])"
  by (simp add: edit_task_modal_def press_def js_or_def truthy_def dbGetTaskById_def
        store3_def store0_def is_task_def task_p1_def task_b1_def canEditTask_def
        getUserIdFromBody_def to_field_def dir0_def dbUpdateTaskContent_def update_tasks_def
        coalesce_def Let_def refresh_task_card_def env0_def)

text \<open>
  What \<open>complete_task\<close> does after a cancellation: the requester \<open>UR\<close> cancels the
  broadcast task \<open>t2\<close>, then the target \<open>UA\<close> presses "complete".  The completion row
  is inserted (the count goes from 0 to 1), the status stays cancelled, and the only
  Slack call is the edit of the thread card.
\<close>

lemma cancel_then_complete:
  "map_option status
     (dbGetTaskById (fst (cancel_task env0 (press ''UR'' ''t2'') store0)) ''T1'' ''t2'')
     = Some Cancelled
   \<and> dbCountCompletions (fst (cancel_task env0 (press ''UR'' ''t2'') store0)) ''T1'' ''t2'' = 0
   \<and> dbCountCompletions
        (fst (complete_task env0 (press ''UA'' ''t2'')
                (fst (cancel_task env0 (press ''UR'' ''t2'') store0)))) ''T1'' ''t2'' = 1
   \<and> snd (complete_task env0 (press ''UA'' ''t2'')
             (fst (cancel_task env0 (press ''UR'' ''t2'') store0)))
       = [Card_update ''C1'' ''200.7'']"
proof -
  let ?c = "task_b1\<lparr>status := Cancelled, cancelled_at := Some 7,
              cancelled_by_user_id := Some ''UR'', updated_at := 7\<rparr>"
  let ?s1 = "store0\<lparr>tasks := [task_p1, ?c],
               thread_cards := [new_card env0 ''T1'' ''C1'' ''100.0'' ''200.7'']\<rparr>"
  have c1: "cancel_task env0 (press ''UR'' ''t2'') store0 = (?s1, [Card_post ''C1'' ''100.0''])"
    by (simp add: cancel_task_def press_def js_or_def truthy_def dbGetTaskById_def store0_def
          is_task_def task_p1_def task_b1_def dbCancelTask_def update_tasks_def Let_def
          refresh_task_card_def startsWithD_def upsertThreadCard_def post_card_def
          dbGetThreadCard_def dbUpsertThreadCard_def env0_def new_card_def)
  have c2: "complete_task env0 (press ''UA'' ''t2'') ?s1
              = (?s1\<lparr>task_completions := [target_of_b1 ''UA'']\<rparr>, [Card_update ''C1'' ''200.7''])"
    by (simp add: complete_task_def complete_broadcast_def all_done_step_def all_complete_def
          total_of_def press_def js_or_def truthy_def dbGetTaskById_def store0_def
          is_task_def task_p1_def task_b1_def getUserIdFromBody_def dbIsUserTarget_def
          is_member_def target_of_b1_def dbUpsertCompletion_def insert_member_def
          dbCountCompletions_def Let_def refresh_task_card_def startsWithD_def
          upsertThreadCard_def dbGetThreadCard_def is_card_def new_card_def env0_def)
  show ?thesis
    unfolding c1 fst_conv c2 snd_conv
    by (simp add: dbGetTaskById_def is_task_def task_p1_def task_b1_def
          dbCountCompletions_def is_member_def target_of_b1_def store0_def)
qed

text \<open>
  C8.  The personal branch of \<open>complete_task\<close> checks no actor: user \<open>UZ\<close>, who is
  neither the requester \<open>UR\<close> nor the assignee \<open>UX\<close> of the personal task \<open>t1\<close>, moves
  it from in progress to done, and the only messages are the "completed" notices to
  \<open>UR\<close> and \<open>UX\<close>.
\<close>

theorem complete_task_personal_third_party:
  "requester_user_id task_p1 \<noteq> ''UZ'' \<and> assignee_id task_p1 \<noteq> Some ''UZ''
   \<and> dbGetTaskById store0 ''T1'' ''t1'' = Some task_p1
   \<and> status task_p1 = In_progress
   \<and> complete_task env0 (press ''UZ'' ''t1'') store0
       = (store0\<lparr>tasks := [task_p1\<lparr>status := Done, completed_at := Some 7, updated_at := 7\<rparr>,
                             task_b1]\<rparr>,
          [Simple_dm ''UR'' ''t1'' Task_completed, Simple_dm ''UX'' ''t1'' Task_completed])"
  by (simp add: complete_task_def complete_personal_def press_def js_or_def truthy_def
        dbGetTaskById_def store0_def is_task_def task_p1_def task_b1_def dbUpdateStatus_def
        update_tasks_def Let_def refresh_task_card_def uniq_def set_add_def opt_list_def
        notifyTaskSimpleDM_def env0_def)

text \<open>
  The checks the other paths do make: cancelling is refused to anyone but the
  requester, \<open>status_select\<close> on a personal task is refused to anyone but the requester
  and the assignee, and a completion of a broadcast task is refused to a user without a
  target row; each refusal leaves the store as it was and sends one ephemeral message.
  So the completion rows stay among the target rows.
\<close>

lemma cancel_task_denied:
  assumes "js_or (val_team r) (req_team r) = Some teamId" and "val_task r = Some taskId"
    and "teamId \<noteq> []" and "taskId \<noteq> []"
    and "dbGetTaskById s teamId taskId = Some t" and "requester_user_id t \<noteq> req_user r"
  shows "cancel_task e r s
           = (s, [Ephemeral (channel_or_user t r) (Some (req_user r)) Cancel_requester_only])"
  using assms by (simp add: cancel_task_def)

lemma status_select_denied:
  assumes "js_or (val_team r) (req_team r) = Some teamId" and "val_task r = Some taskId"
    and "teamId \<noteq> []" and "taskId \<noteq> []"
    and "dbGetTaskById s teamId taskId = Some t" and "task_type t \<noteq> Broadcast"
    and "requester_user_id t \<noteq> req_user r" and "assignee_id t \<noteq> Some (req_user r)"
  shows "status_select e r (Some nxt) s
           = (s, [Ephemeral (channel_or_user t r) (Some (req_user r))
                    Status_requester_or_assignee_only])"
  using assms by (simp add: status_select_def)

lemma complete_task_not_target:
  assumes "js_or (val_team r) (req_team r) = Some teamId" and "val_task r = Some taskId"
    and "teamId \<noteq> []" and "taskId \<noteq> []"
    and "dbGetTaskById s teamId taskId = Some t" and "task_type t = Broadcast"
    and "\<not> dbIsUserTarget s teamId taskId (getUserIdFromBody r)"
  shows "complete_task e r s
           = (s, [Ephemeral (channel_or_user t r) (getUserIdFromBody r) Not_a_target])"
  using complete_task_broadcast [OF assms(1-6), of e] complete_broadcast_not_target [OF assms(7)]
  by simp

lemma find_Some_set: "find P xs = Some x \<Longrightarrow> x \<in> set xs \<and> P x"
  by (induction xs) (auto split: if_splits)

lemma dbIsUserTarget_row:
  assumes "dbIsUserTarget s teamId taskId (Some u)"
  shows "\<lparr>row_task_id = taskId, row_team_id = teamId, row_user_id = u\<rparr> \<in> set (task_targets s)"
proof -
  from assms obtain x
    where x: "find (\<lambda>r. is_member teamId taskId r \<and> row_user_id r = u) (task_targets s) = Some x"
    by (auto simp: dbIsUserTarget_def)
  from find_Some_set [OF x]
  have m: "x \<in> set (task_targets s)" and k: "is_member teamId taskId x \<and> row_user_id x = u"
    by simp_all
  from k have "x = \<lparr>row_task_id = taskId, row_team_id = teamId, row_user_id = u\<rparr>"
    by (cases x) (simp add: is_member_def)
  with m show ?thesis by simp
qed

lemma complete_task_subset:
  assumes "js_or (val_team r) (req_team r) = Some teamId" and "val_task r = Some taskId"
    and "teamId \<noteq> []" and "taskId \<noteq> []"
    and "dbGetTaskById s teamId taskId = Some t" and "task_type t = Broadcast"
    and "set (task_completions s) \<subseteq> set (task_targets s)"
  shows "set (task_completions (fst (complete_task e r s)))
           \<subseteq> set (task_targets (fst (complete_task e r s)))"
proof (cases "dbIsUserTarget s teamId taskId (getUserIdFromBody r)")
  case False
  with complete_task_not_target [OF assms(1-6) False, of e] assms(7) show ?thesis by simp
next
  case True
  then have ne: "req_user r \<noteq> []"
    by (auto simp: getUserIdFromBody_def dbIsUserTarget_def split: if_splits)
  with True have tg: "dbIsUserTarget s teamId taskId (Some (req_user r))"
    by (simp add: getUserIdFromBody_def)
  from complete_task_completions [OF assms(1-6) ne tg, of e] dbIsUserTarget_row [OF tg] assms(7)
  show ?thesis
    by (auto simp: insert_member_def split: option.splits)
qed


end
